theory Spec2Isabelle
  imports Complex_Main "HOL-Library.AList"
begin

section \<open>Python values used by the driver\<close>

text \<open>
  An exception is the name of its class and its message. The driver in
  \<^verbatim>\<open>Simulator/Simulation.py\<close> raises \<^verbatim>\<open>RuntimeError\<close> itself; the other
  exceptions are raised by the interpreter (a list index out of range, a missing
  dictionary key, a missing attribute, a division by zero).
\<close>

datatype error = Error (kind: string) (message: string)

definition RuntimeError :: "string \<Rightarrow> error" where
  "RuntimeError msg = Error ''RuntimeError'' msg"

definition ZeroDivisionError :: error where
  "ZeroDivisionError = Error ''ZeroDivisionError'' ''division by zero''"

definition IndexError :: error where
  "IndexError = Error ''IndexError'' ''list index out of range''"

definition KeyError :: "string \<Rightarrow> error" where
  "KeyError k = Error ''KeyError'' k"

definition AttributeError :: "string \<Rightarrow> error" where
  "AttributeError a = Error ''AttributeError'' a"

text \<open>The two characters of the source outside ASCII, as their UTF-8 bytes.\<close>

definition em_dash :: string where
  "em_dash = [CHR 0xE2, CHR 0x80, CHR 0x94]"

definition arrow :: string where
  "arrow = [CHR 0xE2, CHR 0x86, CHR 0x92]"

definition and_then :: "error + 'a \<Rightarrow> ('a \<Rightarrow> error + 'b) \<Rightarrow> error + 'b" where
  "and_then m f = (case m of Inl e \<Rightarrow> Inl e | Inr v \<Rightarrow> f v)"

text \<open>A value that is a number or a string: \<^verbatim>\<open>getattr(person, "age", "Unknown")\<close>.\<close>

datatype pyval = IntV int | StrV string

text \<open>
  A dictionary is an association list in insertion order with distinct keys:
  \<^verbatim>\<open>d[k] = v\<close> is \<^const>\<open>AList.update\<close>, \<^verbatim>\<open>d.get(k, dflt)\<close> is \<open>dict_get\<close>,
  \<^verbatim>\<open>d[k]\<close> is \<open>dict_item\<close> and raises \<^verbatim>\<open>KeyError\<close> on a missing key.
\<close>

definition dict_get :: "('k \<times> 'v) list \<Rightarrow> 'k \<Rightarrow> 'v \<Rightarrow> 'v" where
  "dict_get d k dflt = (case map_of d k of None \<Rightarrow> dflt | Some v \<Rightarrow> v)"

definition dict_item :: "(string \<times> 'v) list \<Rightarrow> string \<Rightarrow> error + 'v" where
  "dict_item d k = (case map_of d k of None \<Rightarrow> Inl (KeyError k) | Some v \<Rightarrow> Inr v)"

text \<open>\<^verbatim>\<open>collections.Counter(xs)\<close>: one key per distinct element, in order of first occurrence.\<close>

definition Counter :: "'a list \<Rightarrow> ('a \<times> int) list" where
  "Counter xs = fold (\<lambda>x c. AList.update x (dict_get c x 0 + 1) c) xs []"

text \<open>The dictionary comprehension \<^verbatim>\<open>{kf(x): vf(x) for x in xs}\<close>.\<close>

definition dict_comp :: "('a \<Rightarrow> 'k) \<Rightarrow> ('a \<Rightarrow> 'v) \<Rightarrow> 'a list \<Rightarrow> ('k \<times> 'v) list" where
  "dict_comp kf vf xs = fold (\<lambda>x d. AList.update (kf x) (vf x) d) xs []"

text \<open>
  A comprehension whose value expression may raise, over the keys of a dictionary
  (which are distinct): the first key that raises aborts it.
\<close>

fun dict_comp_raising :: "('k \<Rightarrow> error + 'v) \<Rightarrow> 'k list \<Rightarrow> error + ('k \<times> 'v) list" where
  "dict_comp_raising vf [] = Inr []"
| "dict_comp_raising vf (k # ks) =
     and_then (vf k) (\<lambda>v. and_then (dict_comp_raising vf ks) (\<lambda>d. Inr ((k, v) # d)))"

text \<open>
  Floats. A float is read as the real number it denotes, and the operations of the
  interpreter on floats are parameters: the model does not compute a quotient or a
  rounding, it records which operation is applied to which operands. \<open>int_div_int a b\<close>
  is \<^verbatim>\<open>a / b\<close> on two ints (\<open>b\<close> not 0), \<open>int_div_float a x\<close> is \<^verbatim>\<open>a / x\<close> on an int
  and a float, \<open>float_sub\<close> and \<open>float_mul\<close> are \<^verbatim>\<open>x - y\<close> and \<^verbatim>\<open>x * y\<close> on floats
  (the int \<^verbatim>\<open>1000\<close> converts to the float 1000), and \<open>float_round x nd\<close> is
  \<^verbatim>\<open>round(x, nd)\<close> on a float. The operations are total: the overflow of a quotient,
  which needs counts beyond the range of floats, is not modelled.
\<close>

record arithmetic =
  int_div_int :: "int \<Rightarrow> int \<Rightarrow> real"
  int_div_float :: "int \<Rightarrow> real \<Rightarrow> real"
  float_sub :: "real \<Rightarrow> real \<Rightarrow> real"
  float_mul :: "real \<Rightarrow> real \<Rightarrow> real"
  float_round :: "real \<Rightarrow> nat \<Rightarrow> real"

text \<open>\<^verbatim>\<open>a / b\<close> on two Python ints: true division, which raises on a zero divisor.\<close>

definition true_div :: "arithmetic \<Rightarrow> int \<Rightarrow> int \<Rightarrow> error + real" where
  "true_div fl a b = (if b = 0 then Inl ZeroDivisionError else Inr (int_div_int fl a b))"

text \<open>
  \<^verbatim>\<open>round(v, nd)\<close> on a number that is an int (\<open>Inl\<close>) or a float (\<open>Inr\<close>), for
  \<open>nd\<close> not negative: an int is returned as it is.
\<close>

definition py_round :: "arithmetic \<Rightarrow> int + real \<Rightarrow> nat \<Rightarrow> real" where
  "py_round fl v nd = (case v of Inl n \<Rightarrow> real_of_int n | Inr x \<Rightarrow> float_round fl x nd)"

section \<open>The collaborators of the driver\<close>

text \<open>
  Modelled from the spec: the enumeration \<^verbatim>\<open>State\<close> of \<^verbatim>\<open>EnumeratedTypes\<close>, which is
  imported by the driver and not part of the sources. The spec (section 3) gives the four
  states; the driver names \<^verbatim>\<open>State.INFECTED\<close> and reads the counts under the keys
  \<^verbatim>\<open>"S"\<close>, \<^verbatim>\<open>"E"\<close>, \<^verbatim>\<open>"I"\<close>, \<^verbatim>\<open>"R"\<close>, the first letters of the members' names.
  \<open>State_members\<close> is the order in which \<^verbatim>\<open>for s in State\<close> visits the members.
\<close>

datatype State = SUSCEPTIBLE | EXPOSED | INFECTED | RECOVERED

fun state_name :: "State \<Rightarrow> string" where
  "state_name SUSCEPTIBLE = ''SUSCEPTIBLE''"
| "state_name EXPOSED = ''EXPOSED''"
| "state_name INFECTED = ''INFECTED''"
| "state_name RECOVERED = ''RECOVERED''"

definition State_members :: "State list" where
  "State_members = [SUSCEPTIBLE, EXPOSED, INFECTED, RECOVERED]"

text \<open>
  Modelled from the spec: an individual, whose class is not part of the sources. The
  driver reads \<^verbatim>\<open>state\<close> directly and \<^verbatim>\<open>id\<close>, \<^verbatim>\<open>age\<close>, \<^verbatim>\<open>age_group\<close> through
  \<^verbatim>\<open>getattr\<close> with a default, so these three may be absent (\<open>None\<close>);
  \<open>days_in_state\<close>, \<open>vaccinated\<close> and \<open>quarantined\<close> are the remaining mutable
  attributes of the spec's data model (section 3). An individual is identified by its
  position in the population list, as the driver does when it pairs
  \<^verbatim>\<open>prev_states[i]\<close> with the \<open>i\<close>-th person; the list holds distinct objects.
\<close>

record person =
  pid :: "int option"
  age :: "int option"
  age_group :: "string option"
  state :: State
  days_in_state :: nat
  vaccinated :: bool
  quarantined :: bool

text \<open>
  \<^verbatim>\<open>self.population\<close> and \<^verbatim>\<open>self.intervention\<close>: the list
  \<^verbatim>\<open>self.population.population\<close>, and under \<open>hidden\<close> everything else the absent
  classes keep (the contact graph, the policies' bookkeeping, the state of the random
  number generator they draw from).
\<close>

record 'x world =
  population :: "person list"
  hidden :: 'x

text \<open>The arguments the driver passes to \<^verbatim>\<open>Virus(...)\<close>.\<close>

record virus =
  name :: string
  infect_rate :: real
  cure_rate :: real
  infection_time :: int

text \<open>
  The four methods of \<^verbatim>\<open>Intervention\<close> and \<^verbatim>\<open>Population\<close> that the driver calls every
  day. Their code is not part of the sources, so they are parameters: functions of the day
  and of the world, total as the spec (sections 4.1 and 4.3) says they are.
\<close>

record 'x collaborators =
  apply_vaccine :: "int \<Rightarrow> 'x world \<Rightarrow> 'x world"
  apply_social_distancing :: "int \<Rightarrow> 'x world \<Rightarrow> 'x world"
  apply_quarantine :: "int \<Rightarrow> 'x world \<Rightarrow> 'x world"
  Population_update :: "virus \<Rightarrow> int \<Rightarrow> 'x world \<Rightarrow> 'x world"

section \<open>The simulation object\<close>

text \<open>An entry of \<^verbatim>\<open>self.event_log\<close>; \<open>ev_day\<close> is its key \<^verbatim>\<open>"day"\<close>.\<close>

record event =
  ev_day :: int
  PersonID :: int
  Age :: pyval
  AgeGroup :: string
  Event :: string

record summary =
  RunID :: string
  Purpose :: string
  ParametersChanged :: string
  Virus :: string
  PopulationSize :: int
  DurationDays :: int
  Runtime_ms :: real
  FinalState :: "(string \<times> int) list"
  TotalCounts :: "(string \<times> int) list"
  AvgCounts :: "(string \<times> real) list"
  Throughput :: real
  AgeDistribution :: "(string \<times> int) list"

text \<open>
  What the driver writes under \<^verbatim>\<open>RESULTS_DIR\<close>: the rows of the two CSV files below
  their header rows, the summary (without its wall-clock \<^verbatim>\<open>Timestamp\<close>), the copy of
  the configuration, the row appended to the cumulative log, and the plot.
\<close>

datatype content =
  TimeseriesCsv "int list list"
| EventsCsv "event list"
| SummaryJson summary
| ConfigJson
| LogRow string string string real string
| CurvePng

record 'x simulation =
  duration :: int
  purpose :: string
  params_changed :: string
  run_id :: string
  virus :: virus
  world :: "'x world"
  history :: "(string \<times> int) list list"
  event_log :: "event list"
  runtime_ms :: real
  files :: "(string \<times> content) list"

text \<open>
  A call on the simulation object either returns (\<open>Inr\<close>) or raises (\<open>Inl\<close>); the
  object's fields keep what was assigned before the exception.
\<close>

type_synonym 'x outcome = "(error \<times> 'x simulation) + 'x simulation"

definition left_in :: "'x outcome \<Rightarrow> 'x simulation" where
  "left_in r = (case r of Inl (e, s) \<Rightarrow> s | Inr s \<Rightarrow> s)"

definition returns :: "'x outcome \<Rightarrow> bool" where
  "returns r = (case r of Inl _ \<Rightarrow> False | Inr _ \<Rightarrow> True)"

text \<open>
  \<^verbatim>\<open>__init__\<close>: the entries of the configuration's \<^verbatim>\<open>simulation\<close> and \<^verbatim>\<open>virus\<close>
  sections with their defaults. The run identifier (read from the log file) and the
  population and policies built by the absent constructors are arguments.
\<close>

record sim_cfg =
  cfg_duration :: "int option"
  cfg_purpose :: "string option"
  cfg_params_changed :: "string option"

record virus_cfg =
  cfg_name :: "string option"
  cfg_infect_rate :: "real option"
  cfg_cure_rate :: "real option"
  cfg_infection_time :: "int option"

definition cfg_get :: "'a option \<Rightarrow> 'a \<Rightarrow> 'a" where
  "cfg_get v dflt = (case v of None \<Rightarrow> dflt | Some x \<Rightarrow> x)"

definition Simulation :: "sim_cfg \<Rightarrow> virus_cfg \<Rightarrow> string \<Rightarrow> 'x world \<Rightarrow> 'x simulation" where
  "Simulation sc vc rid w =
     \<lparr> duration = cfg_get (cfg_duration sc) 60,
       purpose = cfg_get (cfg_purpose sc) ''Baseline'',
       params_changed = cfg_get (cfg_params_changed sc) ''All defaults'',
       run_id = rid,
       virus = \<lparr> name = cfg_get (cfg_name vc) ''T-Virus'',
                 infect_rate = cfg_get (cfg_infect_rate vc) (7 / 10),
                 cure_rate = cfg_get (cfg_cure_rate vc) (5 / 100),
                 infection_time = cfg_get (cfg_infection_time vc) 2 \<rparr>,
       world = w,
       history = [],
       event_log = [],
       runtime_ms = 0,
       files = [] \<rparr>"

section \<open>One simulated day\<close>

text \<open>
  The dictionary appended to the event log for the person \<open>p\<close> at position \<open>i\<close>
  (lines 109 to 115); the three attributes are read with their defaults.
\<close>

definition event_of :: "int \<Rightarrow> nat \<Rightarrow> person \<Rightarrow> State \<Rightarrow> State \<Rightarrow> event" where
  "event_of d i p old new =
     \<lparr> ev_day = d,
       PersonID = (case pid p of None \<Rightarrow> int i | Some v \<Rightarrow> v),
       Age = (case age p of None \<Rightarrow> StrV ''Unknown'' | Some a \<Rightarrow> IntV a),
       AgeGroup = (case age_group p of None \<Rightarrow> ''Unknown'' | Some g \<Rightarrow> g),
       Event = state_name old @ '' '' @ arrow @ '' '' @ state_name new \<rparr>"

text \<open>
  The loop \<^verbatim>\<open>for i, person in enumerate(self.population.population)\<close> of
  \<^verbatim>\<open>simulate_day\<close> (lines 106 to 115): \<open>i\<close> is the index of the head of the
  remaining list. \<^verbatim>\<open>prev_states[i]\<close> raises when the population has grown during the
  day.
\<close>

fun track_changes :: "int \<Rightarrow> State list \<Rightarrow> nat \<Rightarrow> person list \<Rightarrow> 'x simulation \<Rightarrow> 'x outcome" where
  "track_changes d prev_states i [] s = Inr s"
| "track_changes d prev_states i (p # ps) s =
     (if length prev_states \<le> i then Inl (IndexError, s)
      else let old = prev_states ! i; new = state p
           in track_changes d prev_states (Suc i) ps
                (if old \<noteq> new then s\<lparr>event_log := event_log s @ [event_of d i p old new]\<rparr> else s))"

text \<open>
  The two statements under \<^verbatim>\<open># Record daily totals\<close> (lines 101 and 102): the
  counter of the states, then one entry for every member of \<^verbatim>\<open>State\<close> under the first
  letter of its name.
\<close>

definition daily_totals :: "person list \<Rightarrow> (string \<times> int) list" where
  "daily_totals ps =
     (let counts = Counter (map state ps)
      in dict_comp (\<lambda>s. [hd (state_name s)]) (\<lambda>s. dict_get counts s 0) State_members)"

text \<open>
  \<^verbatim>\<open>simulate_day\<close>: the states are recorded, the collaborators are called in the
  order of lines 95 to 98, the totals are appended to the history, and the changes are
  tracked.
\<close>

definition simulate_day :: "'x collaborators \<Rightarrow> int \<Rightarrow> 'x simulation \<Rightarrow> 'x outcome" where
  "simulate_day ops d s =
     (let prev_states = map state (population (world s));
          w1 = apply_vaccine ops d (world s);
          w2 = apply_social_distancing ops d w1;
          w3 = apply_quarantine ops d w2;
          w4 = Population_update ops (virus s) d w3;
          ordered = daily_totals (population w4);
          s1 = s\<lparr>world := w4, history := history s @ [ordered]\<rparr>
      in track_changes d prev_states 0 (population w4) s1)"

section \<open>Exporting a run\<close>

definition RESULTS_DIR :: string where
  "RESULTS_DIR = ''Simulator/results/''"

text \<open>
  The rows of the time series, \<^verbatim>\<open>for day, c in enumerate(self.history, 1)\<close>: the rows
  written before a record that lacks a key, and the exception that record raises.
\<close>

fun timeseries_rows :: "int \<Rightarrow> (string \<times> int) list list \<Rightarrow> int list list \<times> error option" where
  "timeseries_rows d [] = ([], None)"
| "timeseries_rows d (c # cs) =
     (case and_then (dict_item c ''S'') (\<lambda>s. and_then (dict_item c ''E'') (\<lambda>e.
           and_then (dict_item c ''I'') (\<lambda>i. and_then (dict_item c ''R'') (\<lambda>r.
           Inr [d, s, e, i, r])))) of
        Inl err \<Rightarrow> ([], Some err)
      | Inr row \<Rightarrow> (case timeseries_rows (d + 1) cs of (rows, err) \<Rightarrow> (row # rows, err)))"

text \<open>\<^verbatim>\<open>sum(day[k] for day in self.history)\<close>.\<close>

fun sum_key :: "string \<Rightarrow> (string \<times> int) list list \<Rightarrow> error + int" where
  "sum_key k [] = Inr 0"
| "sum_key k (c # cs) = and_then (dict_item c k) (\<lambda>v. and_then (sum_key k cs) (\<lambda>t. Inr (v + t)))"

text \<open>\<^verbatim>\<open>p.age_group for p in self.population.population\<close>, read without a default.\<close>

fun age_groups :: "person list \<Rightarrow> error + string list" where
  "age_groups [] = Inr []"
| "age_groups (p # ps) =
     (case age_group p of
        None \<Rightarrow> Inl (AttributeError ''age_group'')
      | Some g \<Rightarrow> and_then (age_groups ps) (\<lambda>gs. Inr (g # gs)))"

text \<open>
  The metrics and the summary dictionary of \<^verbatim>\<open>export_run_data\<close>;
  \<open>final_counts\<close> is its local variable of that name.
\<close>

definition final_counts :: "'x simulation \<Rightarrow> (string \<times> int) list" where
  "final_counts s = (if history s \<noteq> [] then last (history s)
                     else [(''S'', 0), (''E'', 0), (''I'', 0), (''R'', 0)])"

definition summarise :: "arithmetic \<Rightarrow> 'x simulation \<Rightarrow> error + summary" where
  "summarise fl s =
     and_then (dict_comp_raising (\<lambda>k. sum_key k (history s)) (map fst (final_counts s)))
       (\<lambda>total_counts.
     and_then (dict_comp_raising
                (\<lambda>k. and_then (sum_key k (history s)) (\<lambda>t. true_div fl t (duration s)))
                (map fst (final_counts s)))
       (\<lambda>avg_counts.
     and_then (if 0 < runtime_ms s
               then and_then (dict_item total_counts ''I'')
                      (\<lambda>i. Inr (Inr (int_div_float fl i (runtime_ms s))))
               else Inr (Inl 0))
       (\<lambda>throughput.
     and_then (age_groups (population (world s)))
       (\<lambda>groups.
     Inr \<lparr> RunID = run_id s,
           Purpose = purpose s,
           ParametersChanged = params_changed s,
           Virus = name (virus s),
           PopulationSize = int (length (population (world s))),
           DurationDays = duration s,
           Runtime_ms = float_round fl (runtime_ms s) 4,
           FinalState = final_counts s,
           TotalCounts = total_counts,
           AvgCounts = avg_counts,
           Throughput = py_round fl throughput 4,
           AgeDistribution = Counter groups \<rparr>))))"

definition base :: "'x simulation \<Rightarrow> string" where
  "base s = RESULTS_DIR @ ''run_'' @ run_id s"

text \<open>
  \<^verbatim>\<open>export_run_data\<close>: the two CSV files are written first, then the metrics are
  computed, then the summary and the configuration are written. It returns the paths of
  the summary and of the configuration.
\<close>

definition export_run_data :: "arithmetic \<Rightarrow> 'x simulation \<Rightarrow> (error \<times> 'x simulation) + ('x simulation \<times> string \<times> string)" where
  "export_run_data fl s =
     (case timeseries_rows 1 (history s) of (rows, err) \<Rightarrow>
        (let s1 = s\<lparr>files := files s @ [(base s @ ''_timeseries.csv'', TimeseriesCsv rows)]\<rparr>;
             s2 = s1\<lparr>files := files s1 @ [(base s @ ''_events.csv'', EventsCsv (event_log s))]\<rparr>
         in (case err of
               Some e \<Rightarrow> Inl (e, s1)
             | None \<Rightarrow>
                 (case summarise fl s of
                    Inl e \<Rightarrow> Inl (e, s2)
                  | Inr summ \<Rightarrow>
                      Inr (s2\<lparr>files := files s2 @
                                 [(base s @ ''_summary.json'', SummaryJson summ),
                                  (base s @ ''_config.json'', ConfigJson)]\<rparr>,
                           base s @ ''_summary.json'', base s @ ''_config.json'')))))"

text \<open>
  \<^verbatim>\<open>log_run\<close> appends one row to the cumulative log; \<^verbatim>\<open>plot_curve\<close> saves the
  figure unless the history is empty.
\<close>

definition log_run :: "arithmetic \<Rightarrow> string \<Rightarrow> 'x simulation \<Rightarrow> 'x simulation" where
  "log_run fl summary_file s =
     s\<lparr>files := files s @
          [(RESULTS_DIR @ ''log.csv'',
            LogRow (run_id s) (purpose s) (params_changed s) (float_round fl (runtime_ms s) 4) summary_file)]\<rparr>"

definition plot_curve :: "string \<Rightarrow> 'x simulation \<Rightarrow> 'x simulation" where
  "plot_curve save_path s =
     (if history s = [] then s else s\<lparr>files := files s @ [(save_path, CurvePng)]\<rparr>)"

section \<open>The run\<close>

text \<open>The two readings of \<^verbatim>\<open>time.time()\<close> in \<^verbatim>\<open>run\<close>, in seconds.\<close>

record clock =
  started :: real
  finished :: real

text \<open>\<^verbatim>\<open>for day in range(1, self.duration + 1): self.simulate_day(day)\<close>.\<close>

fun day_loop :: "'x collaborators \<Rightarrow> int list \<Rightarrow> 'x simulation \<Rightarrow> 'x outcome" where
  "day_loop ops [] s = Inr s"
| "day_loop ops (d # ds) s =
     (case simulate_day ops d s of Inl e \<Rightarrow> Inl e | Inr s' \<Rightarrow> day_loop ops ds s')"

text \<open>The assignment \<^verbatim>\<open>self.population.population[0].state = State.INFECTED\<close>.\<close>

definition infect_patient_zero :: "'x simulation \<Rightarrow> 'x simulation" where
  "infect_patient_zero s =
     s\<lparr>world := (world s)\<lparr>population :=
          (population (world s))[0 := (population (world s) ! 0)\<lparr>state := INFECTED\<rparr>]\<rparr>\<rparr>"

text \<open>
  \<^verbatim>\<open>run\<close>: the check of the population, the seeding, the day loop, the running time
  from the two readings of the clock, then the export, the log and the plot.
\<close>

definition empty_message :: string where
  "empty_message = ''Population is empty '' @ em_dash @ '' cannot start simulation.''"

definition run :: "arithmetic \<Rightarrow> 'x collaborators \<Rightarrow> clock \<Rightarrow> 'x simulation \<Rightarrow> 'x outcome" where
  "run fl ops clk s =
     (if population (world s) = [] then Inl (RuntimeError empty_message, s)
      else (case day_loop ops [1..duration s] (infect_patient_zero s) of
              Inl e \<Rightarrow> Inl e
            | Inr s2 \<Rightarrow>
                (case export_run_data fl
                        (s2\<lparr>runtime_ms := float_mul fl (float_sub fl (finished clk) (started clk)) 1000\<rparr>) of
                   Inl e \<Rightarrow> Inl e
                 | Inr (s4, summary_file, config_file) \<Rightarrow>
                     Inr (plot_curve (RESULTS_DIR @ ''run_'' @ run_id s4 @ ''_curve.png'')
                            (log_run fl summary_file s4)))))"

section \<open>The disease step\<close>

text \<open>
  Modelled from the spec: the outcomes of the Bernoulli trials of one day. The method
  \<^verbatim>\<open>Population.update\<close> that draws them is not part of the sources. \<open>transmits u v\<close>
  is the outcome of the trial of the susceptible individual \<open>u\<close> with its infected
  contact \<open>v\<close> (section 4.2: one independent trial for each infected neighbour, with the
  probability \<open>infect_rate\<close> times the risk factor of \<open>u\<close>); \<open>recovers u\<close> is the outcome
  of the recovery trial of \<open>u\<close> (probability \<open>cure_rate\<close>). A trial belongs to the
  individuals it is about, not to the moment at which the pass reaches them.
\<close>

record chance =
  transmits :: "nat \<Rightarrow> nat \<Rightarrow> bool"
  recovers :: "nat \<Rightarrow> bool"

text \<open>
  Modelled from the spec: exposure of the susceptible individual \<open>u\<close> (section 4.2),
  \<^verbatim>\<open>Population.update\<close> being absent. \<open>nbrs u\<close> are the active contacts of \<open>u\<close>, read in
  the snapshot; a vaccinated individual has probability 0 in every trial; any successful
  trial exposes.
\<close>

definition exposed_today :: "(nat \<Rightarrow> nat list) \<Rightarrow> chance \<Rightarrow> person list \<Rightarrow> nat \<Rightarrow> bool" where
  "exposed_today nbrs ch snap u =
     (\<not> vaccinated (snap ! u) \<and>
      list_ex (\<lambda>v. v < length snap \<and> state (snap ! v) = INFECTED \<and> transmits ch u v) (nbrs u))"

text \<open>
  Modelled from the spec: the transition decision of individual \<open>u\<close> against the
  snapshot (section 4.2), \<^verbatim>\<open>Population.update\<close> being absent. Susceptible becomes
  Exposed on exposure; Exposed becomes Infected after one day (the minimal model);
  Infected becomes Recovered when the recovery trial succeeds or \<open>days_in_state\<close> has
  reached \<open>infection_time\<close>, and counts one more day otherwise; Recovered is terminal.
\<close>

definition decide :: "virus \<Rightarrow> (nat \<Rightarrow> nat list) \<Rightarrow> chance \<Rightarrow> person list \<Rightarrow> nat \<Rightarrow> person" where
  "decide vir nbrs ch snap u =
     (let p = snap ! u
      in case state p of
           SUSCEPTIBLE \<Rightarrow>
             if exposed_today nbrs ch snap u then p\<lparr>state := EXPOSED, days_in_state := 0\<rparr> else p
         | EXPOSED \<Rightarrow> p\<lparr>state := INFECTED, days_in_state := 0\<rparr>
         | INFECTED \<Rightarrow>
             if recovers ch u \<or> infection_time vir \<le> int (days_in_state p)
             then p\<lparr>state := RECOVERED, days_in_state := 0\<rparr>
             else p\<lparr>days_in_state := days_in_state p + 1\<rparr>
         | RECOVERED \<Rightarrow> p)"

text \<open>
  Modelled from the spec: one pass over the whole population in a given iteration
  order (sections 4.2 and 5), \<^verbatim>\<open>Population.update\<close> being absent: first all decisions
  are computed against the snapshot, then they are committed one after the other.
\<close>

definition decisions :: "virus \<Rightarrow> (nat \<Rightarrow> nat list) \<Rightarrow> chance \<Rightarrow> nat list \<Rightarrow> person list \<Rightarrow> (nat \<times> person) list" where
  "decisions vir nbrs ch order snap = map (\<lambda>u. (u, decide vir nbrs ch snap u)) order"

fun commit :: "(nat \<times> person) list \<Rightarrow> person list \<Rightarrow> person list" where
  "commit [] pop = pop"
| "commit ((u, p) # ds) pop = commit ds (pop[u := p])"

definition disease_step :: "virus \<Rightarrow> (nat \<Rightarrow> nat list) \<Rightarrow> chance \<Rightarrow> nat list \<Rightarrow> person list \<Rightarrow> person list" where
  "disease_step vir nbrs ch order pop = commit (decisions vir nbrs ch order pop) pop"

text \<open>
  Modelled from the spec: \<^verbatim>\<open>Population.update\<close> as the driver calls it, absent from the
  sources. The active contacts, the trials of the day and the iteration order are read
  from the world.
\<close>

definition synchronous_update ::
  "('x world \<Rightarrow> nat \<Rightarrow> nat list) \<Rightarrow> (int \<Rightarrow> 'x world \<Rightarrow> chance) \<Rightarrow> (int \<Rightarrow> 'x world \<Rightarrow> nat list)
     \<Rightarrow> virus \<Rightarrow> int \<Rightarrow> 'x world \<Rightarrow> 'x world" where
  "synchronous_update nbrs trials order vir d w =
     w\<lparr>population := disease_step vir (nbrs w) (trials d w) (order d w) (population w)\<rparr>"

section \<open>Notions used to state the properties\<close>

text \<open>
  The world at the end of day \<open>d\<close>: the three interventions in the order in which
  \<^verbatim>\<open>simulate_day\<close> calls them, then the disease step.
\<close>

definition day_world :: "'x collaborators \<Rightarrow> int \<Rightarrow> 'x simulation \<Rightarrow> 'x world" where
  "day_world ops d s =
     Population_update ops (virus s) d
       (apply_quarantine ops d (apply_social_distancing ops d (apply_vaccine ops d (world s))))"

text \<open>
  The event records of one day: one for each position whose state differs from the state
  recorded for it at the start of the day, in the order of the positions.
\<close>

definition changes :: "int \<Rightarrow> State list \<Rightarrow> person list \<Rightarrow> event list" where
  "changes d prev ps =
     map (\<lambda>j. event_of d j (ps ! j) (prev ! j) (state (ps ! j)))
       (filter (\<lambda>j. prev ! j \<noteq> state (ps ! j)) [0..<length ps])"


text \<open>
  The collaborators never create or destroy an individual (spec, section 3: the
  population size is constant).
\<close>

definition keeps_size :: "'x collaborators \<Rightarrow> bool" where
  "keeps_size ops =
     (\<forall>v d w. length (population (apply_vaccine ops d w)) = length (population w) \<and>
              length (population (apply_social_distancing ops d w)) = length (population w) \<and>
              length (population (apply_quarantine ops d w)) = length (population w) \<and>
              length (population (Population_update ops v d w)) = length (population w))"

text \<open>A record of the history with exactly the four keys, in the order of the states.\<close>

definition well_formed :: "(string \<times> int) list \<Rightarrow> bool" where
  "well_formed c = (map fst c = [''S'', ''E'', ''I'', ''R''])"

text \<open>The sum over the recorded days of the count stored under a key.\<close>

definition key_total :: "string \<Rightarrow> (string \<times> int) list list \<Rightarrow> int" where
  "key_total k h = sum_list (map (\<lambda>c. dict_get c k 0) h)"

text \<open>The simulation object when the day loop has run the days \<open>1, ..., d\<close> after seeding.\<close>

definition at_end_of_day :: "'x collaborators \<Rightarrow> 'x simulation \<Rightarrow> int \<Rightarrow> 'x simulation" where
  "at_end_of_day ops s d = left_in (day_loop ops [1..d] (infect_patient_zero s))"

text \<open>The summaries among the files written, in the order in which they were written.\<close>

definition summaries_written :: "'x simulation \<Rightarrow> summary list" where
  "summaries_written s =
     concat (map (\<lambda>(path, c). case c of SummaryJson m \<Rightarrow> [m] | _ \<Rightarrow> []) (files s))"

text \<open>
  The populations a run goes through: after seeding (day 0) and at the end of each day.
\<close>

definition populations_of_run :: "'x collaborators \<Rightarrow> 'x simulation \<Rightarrow> person list list" where
  "populations_of_run ops s = map (\<lambda>d. population (world (at_end_of_day ops s d))) [0..duration s]"

text \<open>
  The quantity of the spec's throughput figure, in the spec's words: the total number of
  individuals ever infected during the run, that is, the number of positions that are in
  the Infected state in at least one of the populations the run goes through.
\<close>

definition ever_infected :: "person list list \<Rightarrow> nat" where
  "ever_infected pops =
     (case pops of
        [] \<Rightarrow> 0
      | p0 # _ \<Rightarrow>
          length (filter (\<lambda>i. list_ex (\<lambda>ps. i < length ps \<and> state (ps ! i) = INFECTED) pops)
                    [0..<length p0]))"

text \<open>
  Two simulation objects hold the same inputs of the day loop: the duration, the virus,
  the world (population, contact graph, policies and the state of the random number
  generator), the history and the event log. They may differ in the run identifier, the
  purpose, the running time and the files written so far. Two outcomes agree when both
  return or both raise and leave such objects.
\<close>

definition same_inputs :: "'x simulation \<Rightarrow> 'x simulation \<Rightarrow> bool" where
  "same_inputs s t =
     (duration s = duration t \<and> virus s = virus t \<and> world s = world t \<and>
      history s = history t \<and> event_log s = event_log t)"

definition agree :: "'x outcome \<Rightarrow> 'x outcome \<Rightarrow> bool" where
  "agree r q = (returns r = returns q \<and> same_inputs (left_in r) (left_in q))"

section \<open>A small run, used to instantiate the theorems\<close>

definition individual :: "int \<Rightarrow> State \<Rightarrow> person" where
  "individual i st = \<lparr> pid = Some i, age = Some 30, age_group = Some ''adult'', state = st,
     days_in_state = 0, vaccinated = False, quarantined = False \<rparr>"

text \<open>A disease step without chance: every individual moves on to the next state.\<close>

fun progress :: "person \<Rightarrow> person" where
  "progress p = p\<lparr>state := (case state p of SUSCEPTIBLE \<Rightarrow> EXPOSED | EXPOSED \<Rightarrow> INFECTED
                                  | INFECTED \<Rightarrow> RECOVERED | RECOVERED \<Rightarrow> RECOVERED)\<rparr>"

text \<open>Collaborators that write their name into the hidden part of the world when called.\<close>

definition logging_ops :: "string list collaborators" where
  "logging_ops =
     \<lparr> apply_vaccine = (\<lambda>d w. w\<lparr>hidden := hidden w @ [''vaccinate'']\<rparr>),
       apply_social_distancing = (\<lambda>d w. w\<lparr>hidden := hidden w @ [''distance'']\<rparr>),
       apply_quarantine = (\<lambda>d w. w\<lparr>hidden := hidden w @ [''quarantine'']\<rparr>),
       Population_update = (\<lambda>v d w. w\<lparr>population := map progress (population w),
                                          hidden := hidden w @ [''update'']\<rparr>) \<rparr>"

definition two_people :: "string list world" where
  "two_people = \<lparr> population = [individual 0 SUSCEPTIBLE, individual 1 SUSCEPTIBLE], hidden = [] \<rparr>"

definition two_days :: sim_cfg where
  "two_days = \<lparr> cfg_duration = Some 2, cfg_purpose = None, cfg_params_changed = None \<rparr>"


definition defaults :: virus_cfg where
  "defaults = \<lparr> cfg_name = None, cfg_infect_rate = None, cfg_cure_rate = None,
                 cfg_infection_time = None \<rparr>"

text \<open>A world without individuals.\<close>

definition nobody :: "string list world" where
  "nobody = \<lparr> population = [], hidden = [] \<rparr>"

text \<open>
  An arithmetic without rounding error: the operations of the reals, and rounding to
  \<open>nd\<close> decimals with a tie to the even neighbour. It is not the arithmetic of the
  interpreter, and no theorem depends on it: it serves to evaluate the theorems on the
  run below, where the interpreter computes the same numbers
  (\<^verbatim>\<open>(0.001 - 0.0) * 1000 == 1.0\<close>, \<^verbatim>\<open>1 / 1.0 == 1.0\<close>, \<^verbatim>\<open>2 / 1.0 == 2.0\<close>,
  \<^verbatim>\<open>round(1.0, 4) == 1.0\<close>, \<^verbatim>\<open>round(2.0, 4) == 2.0\<close>).
\<close>

definition round_half_even :: "real \<Rightarrow> int" where
  "round_half_even x =
     (let f = \<lfloor>x\<rfloor>; r = x - of_int f
      in if r < 1 / 2 then f else if 1 / 2 < r then f + 1 else if even f then f else f + 1)"

definition ideal :: arithmetic where
  "ideal =
     \<lparr> int_div_int = (\<lambda>a b. real_of_int a / real_of_int b),
       int_div_float = (\<lambda>a x. real_of_int a / x),
       float_sub = (\<lambda>x y. x - y),
       float_mul = (\<lambda>x y. x * y),
       float_round = (\<lambda>x nd. of_int (round_half_even (x * 10 ^ nd)) / 10 ^ nd) \<rparr>"

text \<open>A run that takes one millisecond.\<close>

definition stopwatch :: clock where
  "stopwatch = \<lparr> started = 0, finished = 1 / 1000 \<rparr>"

text \<open>
  Two individuals in contact with each other, the first one infected; every trial
  succeeds.
\<close>

definition certain :: chance where
  "certain = \<lparr> transmits = (\<lambda>u v. True), recovers = (\<lambda>u. True) \<rparr>"

definition pair_contacts :: "nat \<Rightarrow> nat list" where
  "pair_contacts u = [1 - u]"

definition seeded_pair :: "string list world" where
  "seeded_pair = \<lparr> population = [individual 0 INFECTED, individual 1 SUSCEPTIBLE], hidden = [] \<rparr>"

section \<open>Auxiliary facts\<close>


lemma dict_get_fold_count:
  "dict_get (fold (\<lambda>x c. AList.update x (dict_get c x 0 + 1) c) xs c) y (0::int)
     = dict_get c y 0 + int (count_list xs y)"
  by (induction xs arbitrary: c) (auto simp: dict_get_def update_conv')

lemma dict_get_Counter: "dict_get (Counter xs) y 0 = int (count_list xs y)"
  by (simp add: Counter_def dict_get_fold_count) (simp add: dict_get_def)

lemma daily_totals_eq:
  "daily_totals ps =
     [(''S'', int (count_list (map state ps) SUSCEPTIBLE)),
      (''E'', int (count_list (map state ps) EXPOSED)),
      (''I'', int (count_list (map state ps) INFECTED)),
      (''R'', int (count_list (map state ps) RECOVERED))]"
  by (simp add: daily_totals_def dict_comp_def State_members_def dict_get_Counter)

lemma count_states_total:
  "count_list xs SUSCEPTIBLE + count_list xs EXPOSED + count_list xs INFECTED
     + count_list xs RECOVERED = length xs"
proof (induction xs)
  case Nil
  show ?case by simp
next
  case (Cons x xs)
  then show ?case by (cases x) simp_all
qed

lemma track_changes_general:
  "i + length ps \<le> length prev \<Longrightarrow>
   track_changes d prev i ps s =
     Inr (s\<lparr>event_log := event_log s @
            map (\<lambda>j. event_of d (i + j) (ps ! j) (prev ! (i + j)) (state (ps ! j)))
              (filter (\<lambda>j. prev ! (i + j) \<noteq> state (ps ! j)) [0..<length ps])\<rparr>)"
proof (induction ps arbitrary: i s)
  case Nil
  show ?case by simp
next
  case (Cons p ps)
  have up: "[0..<length (p # ps)] = 0 # map Suc [0..<length ps]"
    by (simp add: upt_conv_Cons map_Suc_upt del: upt_Suc)
  from Cons.prems have "Suc i + length ps \<le> length prev" by simp
  from Cons.IH[OF this] Cons.prems show ?case
    unfolding up by (simp add: filter_map comp_def Let_def)
qed

lemma track_changes_ok:
  "length ps \<le> length prev \<Longrightarrow>
   track_changes d prev 0 ps s = Inr (s\<lparr>event_log := event_log s @ changes d prev ps\<rparr>)"
  using track_changes_general[of 0 ps prev d s] by (simp add: changes_def)

lemma track_changes_frame:
  "world (left_in (track_changes d prev i ps s)) = world s \<and>
   history (left_in (track_changes d prev i ps s)) = history s \<and>
   duration (left_in (track_changes d prev i ps s)) = duration s \<and>
   virus (left_in (track_changes d prev i ps s)) = virus s \<and>
   files (left_in (track_changes d prev i ps s)) = files s \<and>
   run_id (left_in (track_changes d prev i ps s)) = run_id s"
  by (induction ps arbitrary: i s) (simp_all add: left_in_def Let_def)

lemma track_changes_error:
  "track_changes d prev i ps s = Inl (e, s') \<Longrightarrow> e = IndexError"
  by (induction ps arbitrary: i s) (auto simp: Let_def split: if_splits)

lemma simulate_day_ok:
  assumes "length (population (day_world ops d s)) \<le> length (population (world s))"
  shows "simulate_day ops d s =
     Inr (s\<lparr>world := day_world ops d s,
            history := history s @ [daily_totals (population (day_world ops d s))],
            event_log := event_log s @
              changes d (map state (population (world s))) (population (day_world ops d s))\<rparr>)"
  using assms by (simp add: simulate_day_def Let_def day_world_def[symmetric] track_changes_ok)

lemma simulate_day_frame:
  "world (left_in (simulate_day ops d s)) = day_world ops d s \<and>
   history (left_in (simulate_day ops d s)) =
     history s @ [daily_totals (population (day_world ops d s))] \<and>
   duration (left_in (simulate_day ops d s)) = duration s \<and>
   virus (left_in (simulate_day ops d s)) = virus s \<and>
   files (left_in (simulate_day ops d s)) = files s \<and>
   run_id (left_in (simulate_day ops d s)) = run_id s"
  by (simp add: simulate_day_def Let_def day_world_def[symmetric] track_changes_frame)

lemma simulate_day_error:
  "simulate_day ops d s = Inl (e, s') \<Longrightarrow> e = IndexError"
  by (auto simp: simulate_day_def Let_def dest: track_changes_error)

lemma day_loop_error:
  "day_loop ops ds s = Inl (e, s') \<Longrightarrow> e = IndexError"
  by (induction ds arbitrary: s) (auto split: sum.splits dest: simulate_day_error)

lemma day_world_size:
  "keeps_size ops \<Longrightarrow> length (population (day_world ops d s)) = length (population (world s))"
  by (simp add: keeps_size_def day_world_def)

lemma left_in_simps [simp]: "left_in (Inr s) = s" "left_in (Inl (e, s)) = s"
  by (simp_all add: left_in_def)

lemma day_loop_snoc:
  "day_loop ops (ds @ [d]) s =
     (case day_loop ops ds s of Inl e \<Rightarrow> Inl e | Inr s' \<Rightarrow> simulate_day ops d s')"
  by (induction ds arbitrary: s) (auto split: sum.splits)

lemma day_loop_frame:
  "duration (left_in (day_loop ops ds s)) = duration s \<and>
   virus (left_in (day_loop ops ds s)) = virus s \<and>
   files (left_in (day_loop ops ds s)) = files s \<and>
   run_id (left_in (day_loop ops ds s)) = run_id s"
proof (induction ds arbitrary: s)
  case Nil
  show ?case by simp
next
  case (Cons d ds)
  show ?case
  proof (cases "simulate_day ops d s")
    case (Inl a)
    then show ?thesis using simulate_day_frame[of ops d s] by (cases a) simp
  next
    case (Inr s1)
    then show ?thesis using simulate_day_frame[of ops d s] Cons.IH[of s1] by simp
  qed
qed

lemma day_loop_history:
  "\<exists>hs. history (left_in (day_loop ops ds s)) = history s @ hs \<and> length hs \<le> length ds \<and>
        (returns (day_loop ops ds s) \<longrightarrow> length hs = length ds) \<and>
        (\<forall>c\<in>set hs. \<exists>ps. c = daily_totals ps)"
proof (induction ds arbitrary: s)
  case Nil
  show ?case by (simp add: returns_def)
next
  case (Cons d ds)
  show ?case
  proof (cases "simulate_day ops d s")
    case (Inl a)
    then show ?thesis using simulate_day_frame[of ops d s]
      by (cases a) (auto simp: returns_def)
  next
    case (Inr s1)
    from Cons.IH[of s1] obtain hs where
      hs: "history (left_in (day_loop ops ds s1)) = history s1 @ hs" "length hs \<le> length ds"
        "returns (day_loop ops ds s1) \<longrightarrow> length hs = length ds"
        "\<forall>c\<in>set hs. \<exists>ps. c = daily_totals ps"
      by blast
    have h1: "history s1 = history s @ [daily_totals (population (day_world ops d s))]"
      using simulate_day_frame[of ops d s] Inr by simp
    show ?thesis
      apply (rule exI[of _ "daily_totals (population (day_world ops d s)) # hs"])
      using hs h1 Inr by auto
  qed
qed

lemma day_loop_sized:
  assumes "keeps_size ops"
  shows "\<exists>s' hs. day_loop ops ds s = Inr s' \<and>
           length (population (world s')) = length (population (world s)) \<and>
           history s' = history s @ hs \<and> length hs = length ds \<and>
           (\<forall>c\<in>set hs. \<exists>ps. length ps = length (population (world s)) \<and> c = daily_totals ps)"
proof (induction ds arbitrary: s)
  case Nil
  show ?case by simp
next
  case (Cons d ds)
  let ?w = "day_world ops d s"
  have len: "length (population ?w) = length (population (world s))"
    using assms by (rule day_world_size)
  define s1 where "s1 = s\<lparr>world := ?w, history := history s @ [daily_totals (population ?w)],
     event_log := event_log s @ changes d (map state (population (world s))) (population ?w)\<rparr>"
  have step: "simulate_day ops d s = Inr s1"
    unfolding s1_def by (rule simulate_day_ok) (simp add: len)
  from Cons.IH[of s1] obtain s' hs where
    t: "day_loop ops ds s1 = Inr s'"
       "length (population (world s')) = length (population (world s1))"
       "history s' = history s1 @ hs" "length hs = length ds"
       "\<forall>c\<in>set hs. \<exists>ps. length ps = length (population (world s1)) \<and> c = daily_totals ps"
    by blast
  have w1: "length (population (world s1)) = length (population (world s))"
    by (simp add: s1_def len)
  show ?case
    apply (rule exI[of _ s'])
    apply (rule exI[of _ "daily_totals (population ?w) # hs"])
    using t step w1 len by (auto simp: s1_def)
qed

lemma and_then_simps [simp]:
  "and_then (Inl e) f = Inl e" "and_then (Inr v) f = f v"
  by (simp_all add: and_then_def)

lemma and_then_Inl: "and_then m f = Inl e \<Longrightarrow> m = Inl e \<or> (\<exists>v. m = Inr v \<and> f v = Inl e)"
  by (cases m) simp_all

lemma dict_item_present:
  "k \<in> fst ` set c \<Longrightarrow> dict_item c k = Inr (dict_get c k dflt)"
  by (auto simp: dict_item_def dict_get_def map_of_eq_None_iff split: option.splits)

lemma dict_item_error: "dict_item c k = Inl e \<Longrightarrow> e = KeyError k"
  by (auto simp: dict_item_def split: option.splits)

lemma well_formed_keys:
  "well_formed c \<Longrightarrow> fst ` set c = {''S'', ''E'', ''I'', ''R''}"
proof -
  assume "well_formed c"
  then have "set (map fst c) = set [''S'', ''E'', ''I'', ''R'']" by (simp add: well_formed_def)
  then show ?thesis by (simp only: set_map) auto
qed

lemma daily_totals_well_formed: "well_formed (daily_totals ps)"
  by (simp add: daily_totals_eq well_formed_def)

lemma sum_key_ok:
  "list_all (\<lambda>c. k \<in> fst ` set c) h \<Longrightarrow>
   sum_key k h = Inr (sum_list (map (\<lambda>c. dict_get c k 0) h))"
  by (induction h) (simp_all add: dict_item_present[where dflt = 0])

lemma sum_key_error: "sum_key k h = Inl e \<Longrightarrow> e = KeyError k"
  by (induction h) (auto dest!: and_then_Inl dict_item_error)

lemma dict_comp_raising_ok:
  "\<forall>k\<in>set ks. vf k = Inr (g k) \<Longrightarrow> dict_comp_raising vf ks = Inr (map (\<lambda>k. (k, g k)) ks)"
  by (induction ks) simp_all

lemma dict_comp_raising_error:
  "dict_comp_raising vf ks = Inl e \<Longrightarrow> \<exists>k\<in>set ks. vf k = Inl e"
  by (induction ks) (auto dest!: and_then_Inl)

lemma timeseries_rows_ok:
  "list_all well_formed h \<Longrightarrow> snd (timeseries_rows d h) = None"
proof (induction h arbitrary: d)
  case Nil
  show ?case by simp
next
  case (Cons c h)
  then have k: "fst ` set c = {''S'', ''E'', ''I'', ''R''}" by (simp add: well_formed_keys)
  have "dict_item c ''S'' = Inr (dict_get c ''S'' 0)" "dict_item c ''E'' = Inr (dict_get c ''E'' 0)"
       "dict_item c ''I'' = Inr (dict_get c ''I'' 0)" "dict_item c ''R'' = Inr (dict_get c ''R'' 0)"
    using k by (simp_all add: dict_item_present)
  moreover obtain rows err where r: "timeseries_rows (d + 1) h = (rows, err)"
    by (cases "timeseries_rows (d + 1) h")
  moreover have "err = None" using Cons.IH[of "d + 1"] Cons.prems r by simp
  ultimately show ?case by simp
qed

lemma timeseries_rows_error:
  "snd (timeseries_rows d h) = Some e \<Longrightarrow> kind e = ''KeyError''"
proof (induction h arbitrary: d)
  case Nil
  then show ?case by simp
next
  case (Cons c h)
  obtain rows err where r: "timeseries_rows (d + 1) h = (rows, err)"
    by (cases "timeseries_rows (d + 1) h")
  show ?case
  proof (cases "and_then (dict_item c ''S'') (\<lambda>s. and_then (dict_item c ''E'') (\<lambda>e.
           and_then (dict_item c ''I'') (\<lambda>i. and_then (dict_item c ''R'') (\<lambda>r.
           Inr [d, s, e, i, r]))))")
    case (Inl a)
    then have "kind a = ''KeyError''"
      by (auto simp: KeyError_def dest!: and_then_Inl dict_item_error)
    with Inl Cons.prems show ?thesis by simp
  next
    case (Inr row)
    with Cons.prems r have "err = Some e" by simp
    with Cons.IH[of "d + 1"] r show ?thesis by simp
  qed
qed

lemma age_groups_ok:
  "list_all (\<lambda>p. age_group p \<noteq> None) ps \<Longrightarrow> age_groups ps = Inr (map (\<lambda>p. the (age_group p)) ps)"
  by (induction ps) (auto split: option.splits)

lemma age_groups_error: "age_groups ps = Inl e \<Longrightarrow> e = AttributeError ''age_group''"
  by (induction ps) (auto split: option.splits dest!: and_then_Inl)

lemma final_counts_keys:
  "list_all well_formed (history s) \<Longrightarrow> map fst (final_counts s) = [''S'', ''E'', ''I'', ''R'']"
proof (cases "history s = []")
  case True
  then show ?thesis by (simp add: final_counts_def)
next
  case False
  assume "list_all well_formed (history s)"
  with False have "well_formed (last (history s))"
    by (metis last_in_set list_all_iff)
  with False show ?thesis by (simp add: final_counts_def well_formed_def)
qed

lemma summarise_error:
  "summarise fl s = Inl e \<Longrightarrow> kind e \<in> {''KeyError'', ''ZeroDivisionError'', ''AttributeError''}"
  unfolding summarise_def
  by (auto dest!: and_then_Inl dict_comp_raising_error sum_key_error dict_item_error age_groups_error
        simp: KeyError_def AttributeError_def true_div_def ZeroDivisionError_def split: if_splits)


lemma sum_key_result: "sum_key k h = Inr t \<Longrightarrow> t = key_total k h"
proof (induction h arbitrary: t)
  case Nil
  then show ?case by (simp add: key_total_def)
next
  case (Cons c h)
  from Cons.prems obtain v t' where
    v: "dict_item c k = Inr v" and t': "sum_key k h = Inr t'" and t: "t = v + t'"
    by (cases "dict_item c k"; cases "sum_key k h") auto
  from v have "dict_get c k 0 = v"
    by (auto simp: dict_item_def dict_get_def split: option.splits)
  with Cons.IH[OF t'] t show ?case by (simp add: key_total_def)
qed

lemma dict_comp_raising_result:
  "dict_comp_raising vf ks = Inr d \<Longrightarrow> map_of d k = Some v \<Longrightarrow> vf k = Inr v"
proof (induction ks arbitrary: d)
  case Nil
  then show ?case by simp
next
  case (Cons a ks)
  from Cons.prems(1) obtain x d' where
    x: "vf a = Inr x" and d': "dict_comp_raising vf ks = Inr d'" and d: "d = (a, x) # d'"
    by (cases "vf a"; cases "dict_comp_raising vf ks") auto
  show ?case
  proof (cases "k = a")
    case True
    with Cons.prems(2) d x show ?thesis by simp
  next
    case False
    with Cons.prems(2) d have "map_of d' k = Some v" by simp
    from Cons.IH[OF d' this] show ?thesis .
  qed
qed

lemma summarise_throughput:
  assumes "summarise fl s = Inr m"
  shows "Throughput m =
     (if 0 < runtime_ms s
      then float_round fl (int_div_float fl (key_total ''I'' (history s)) (runtime_ms s)) 4
      else 0)"
proof -
  let ?keys = "map fst (final_counts s)"
  from assms obtain total avg thr groups where
    total: "dict_comp_raising (\<lambda>k. sum_key k (history s)) ?keys = Inr total" and
    thr: "(if 0 < runtime_ms s
           then and_then (dict_item total ''I'') (\<lambda>i. Inr (Inr (int_div_float fl i (runtime_ms s))))
           else Inr (Inl 0)) = Inr thr" and
    m: "Throughput m = py_round fl thr 4"
    unfolding summarise_def
    by (auto simp: and_then_def split: sum.splits)
  show ?thesis
  proof (cases "0 < runtime_ms s")
    case False
    with thr m show ?thesis by (auto simp: py_round_def)
  next
    case True
    with thr obtain i where i: "dict_item total ''I'' = Inr i"
      and t: "thr = Inr (int_div_float fl i (runtime_ms s))"
      by (cases "dict_item total ''I''") auto
    from i have "map_of total ''I'' = Some i"
      by (auto simp: dict_item_def split: option.splits)
    from dict_comp_raising_result[OF total this] have "i = key_total ''I'' (history s)"
      by (rule sum_key_result)
    with True t m show ?thesis by (simp add: py_round_def)
  qed
qed

lemma export_frame:
  "export_run_data fl s = Inl (e, s') \<or> export_run_data fl s = Inr (s', a, b) \<Longrightarrow>
   history s' = history s \<and> event_log s' = event_log s \<and> world s' = world s \<and>
   duration s' = duration s \<and> run_id s' = run_id s \<and> runtime_ms s' = runtime_ms s"
  by (auto simp: export_run_data_def Let_def split: prod.splits option.splits sum.splits)

lemma export_error:
  "export_run_data fl s = Inl (e, s') \<Longrightarrow>
   kind e \<in> {''KeyError'', ''ZeroDivisionError'', ''AttributeError''}"
proof -
  assume a: "export_run_data fl s = Inl (e, s')"
  obtain rows err where r: "timeseries_rows 1 (history s) = (rows, err)"
    by (cases "timeseries_rows 1 (history s)")
  show ?thesis
  proof (cases err)
    case (Some e')
    with a r have "e = e'" by (simp add: export_run_data_def Let_def)
    with Some r timeseries_rows_error[of 1 "history s" e] show ?thesis by simp
  next
    case None
    with a r have "summarise fl s = Inl e"
      by (auto simp: export_run_data_def Let_def split: sum.splits)
    then show ?thesis by (rule summarise_error)
  qed
qed


lemma summarise_ok:
  assumes wf: "list_all well_formed (history s)" and d: "duration s \<noteq> 0"
    and ag: "list_all (\<lambda>p. age_group p \<noteq> None) (population (world s))"
  shows "\<exists>m. summarise fl s = Inr m"
proof -
  let ?K = "[''S'', ''E'', ''I'', ''R'']"
  have keys: "map fst (final_counts s) = ?K"
    using wf by (rule final_counts_keys)
  have sk: "sum_key k (history s) = Inr (key_total k (history s))"
    if "k \<in> {''S'', ''E'', ''I'', ''R''}" for k
    unfolding key_total_def
    apply (rule sum_key_ok) using wf that
    by (auto simp: list_all_iff dest!: well_formed_keys)
  have tot: "dict_comp_raising (\<lambda>k. sum_key k (history s)) ?K
      = Inr (map (\<lambda>k. (k, key_total k (history s))) ?K)"
    by (rule dict_comp_raising_ok) (use sk in auto)
  have avg: "dict_comp_raising (\<lambda>k. and_then (sum_key k (history s)) (\<lambda>t. true_div fl t (duration s))) ?K
      = Inr (map (\<lambda>k. (k, int_div_int fl (key_total k (history s)) (duration s))) ?K)"
    by (rule dict_comp_raising_ok) (use sk d in \<open>auto simp: true_div_def\<close>)
  show ?thesis
    unfolding summarise_def keys tot avg
    by (simp add: dict_item_def age_groups_ok[OF ag])
qed

lemma export_returns:
  assumes wf: "list_all well_formed (history s)" and d: "duration s \<noteq> 0"
    and ag: "list_all (\<lambda>p. age_group p \<noteq> None) (population (world s))"
  shows "\<exists>s'. export_run_data fl s = Inr (s', base s @ ''_summary.json'', base s @ ''_config.json'')"
proof -
  obtain rows err where r: "timeseries_rows 1 (history s) = (rows, err)"
    by (cases "timeseries_rows 1 (history s)")
  with timeseries_rows_ok[OF wf, of 1] have "err = None" by simp
  moreover from summarise_ok[OF assms] obtain m where "summarise fl s = Inr m" ..
  ultimately show ?thesis using r by (simp add: export_run_data_def Let_def)
qed


lemma run_frame:
  "population (world s) \<noteq> [] \<Longrightarrow>
   history (left_in (run fl ops clk s)) = history (at_end_of_day ops s (duration s)) \<and>
   event_log (left_in (run fl ops clk s)) = event_log (at_end_of_day ops s (duration s)) \<and>
   world (left_in (run fl ops clk s)) = world (at_end_of_day ops s (duration s))"
proof -
  assume ne: "population (world s) \<noteq> []"
  show ?thesis
  proof (cases "day_loop ops [1..duration s] (infect_patient_zero s)")
    case (Inl a)
    with ne show ?thesis by (cases a) (simp add: run_def at_end_of_day_def)
  next
    case (Inr s2)
    let ?s3 = "s2\<lparr>runtime_ms := float_mul fl (float_sub fl (finished clk) (started clk)) 1000\<rparr>"
    show ?thesis
    proof (cases "export_run_data fl ?s3")
      case (Inl a)
      obtain e s' where a: "a = (e, s')" by (cases a)
      from export_frame[of fl ?s3 e s'] Inl a
      have "history s' = history s2 \<and> event_log s' = event_log s2 \<and> world s' = world s2"
        by simp
      with ne Inr Inl a show ?thesis by (simp add: run_def at_end_of_day_def)
    next
      case (Inr r)
      obtain s4 f1 f2 where r: "r = (s4, f1, f2)" by (cases r)
      from export_frame[of fl ?s3 _ s4 f1 f2] Inr r
      have "history s4 = history s2 \<and> event_log s4 = event_log s2 \<and> world s4 = world s2"
        by simp
      with ne \<open>day_loop ops [1..duration s] (infect_patient_zero s) = Inr s2\<close> Inr r show ?thesis
        by (simp add: run_def at_end_of_day_def plot_curve_def log_run_def)
    qed
  qed
qed

section \<open>Seeding\<close>

text \<open>
  C6. Before day 1 of a run on a non-empty population, the individual at position 0
  (patient zero) is forced into the Infected state: it keeps every other attribute, no
  other individual changes, the population keeps its size, and the day loop of
  \<^verbatim>\<open>run\<close> starts from the population seeded this way.
\<close>

theorem patient_zero_seeded:
  assumes "population (world s) \<noteq> []"
  shows "length (population (world (infect_patient_zero s))) = length (population (world s)) \<and>
         population (world (infect_patient_zero s)) ! 0 = (population (world s) ! 0)\<lparr>state := INFECTED\<rparr> \<and>
         state (population (world (infect_patient_zero s)) ! 0) = INFECTED \<and>
         (\<forall>i. 0 < i \<longrightarrow> population (world (infect_patient_zero s)) ! i = population (world s) ! i) \<and>
         world (left_in (run fl ops clk s)) = world (left_in (day_loop ops [1..duration s] (infect_patient_zero s)))"
  using assms run_frame[OF assms, of fl ops clk]
  by (simp add: infect_patient_zero_def at_end_of_day_def)

theorem patient_zero_seeded_witness:
  "population two_people \<noteq> [] \<and>
   map state (population (world (infect_patient_zero (Simulation two_days defaults ''001'' two_people))))
     = [INFECTED, SUSCEPTIBLE] \<and>
   population (world (infect_patient_zero (Simulation two_days defaults ''001'' two_people))) ! 1
     = individual 1 SUSCEPTIBLE"
  using patient_zero_seeded[of "Simulation two_days defaults ''001'' two_people" ideal logging_ops stopwatch]
  by (simp add: Simulation_def two_people_def infect_patient_zero_def individual_def)

section \<open>More auxiliary facts\<close>


lemma day_loop_append:
  "day_loop ops (xs @ ys) s =
     (case day_loop ops xs s of Inl e \<Rightarrow> Inl e | Inr s1 \<Rightarrow> day_loop ops ys s1)"
  by (induction xs arbitrary: s) (auto split: sum.splits)

lemma day_loop_prefix:
  assumes "day_loop ops [1..n] s = Inr s'" "0 \<le> k" "k \<le> n"
  shows "\<exists>s1. day_loop ops [1..k] s = Inr s1 \<and> day_loop ops [k + 1..n] s1 = Inr s'"
proof -
  have "[1..n] = [1..k] @ [k + 1..n]"
  proof (cases "k = 0")
    case True
    then show ?thesis by simp
  next
    case False
    with assms(2,3) show ?thesis by (intro upto_split2) simp_all
  qed
  with assms(1) show ?thesis
    by (auto simp: day_loop_append split: sum.splits)
qed

lemma day_loop_last_day:
  assumes "day_loop ops [1..k + 1] s = Inr s2" "0 \<le> k"
  shows "\<exists>s1. day_loop ops [1..k] s = Inr s1 \<and> simulate_day ops (k + 1) s1 = Inr s2"
proof -
  have "[1..k + 1] = [1..k] @ [k + 1]"
    using assms(2) by (simp add: upto_rec2)
  with assms(1) show ?thesis
    by (auto simp: day_loop_snoc split: sum.splits)
qed

lemma day_loop_returns_length:
  assumes "day_loop ops ds s = Inr s'"
  shows "length (history s') = length (history s) + length ds"
  using day_loop_history[of ops ds s] assms by (auto simp: returns_def)

lemma seeded_population_size:
  "length (population (world (infect_patient_zero s))) = length (population (world s))"
  by (simp add: infect_patient_zero_def)

lemma seeded_frame:
  "history (infect_patient_zero s) = history s \<and> event_log (infect_patient_zero s) = event_log s \<and>
   duration (infect_patient_zero s) = duration s \<and> virus (infect_patient_zero s) = virus s"
  by (simp add: infect_patient_zero_def)

lemma totals_sum:
  "daily_totals ps = [(''S'', a), (''E'', b), (''I'', e), (''R'', r)] \<Longrightarrow>
   0 \<le> a \<and> 0 \<le> b \<and> 0 \<le> e \<and> 0 \<le> r \<and> a + b + e + r = int (length ps)"
  using count_states_total[of "map state ps"] by (auto simp: daily_totals_eq)

lemma keeps_size_logging_ops: "keeps_size logging_ops"
  by (simp add: keeps_size_def logging_ops_def)

lemma two_people_loop:
  "day_loop logging_ops [1..2] (infect_patient_zero (Simulation two_days defaults rid two_people))
   = Inr ((Simulation two_days defaults rid two_people)
      \<lparr>world := \<lparr>population = [individual 0 RECOVERED, individual 1 INFECTED],
                 hidden = [''vaccinate'', ''distance'', ''quarantine'', ''update'',
                           ''vaccinate'', ''distance'', ''quarantine'', ''update'']\<rparr>,
       history := [[(''S'', 0), (''E'', 1), (''I'', 0), (''R'', 1)],
                   [(''S'', 0), (''E'', 0), (''I'', 1), (''R'', 1)]],
       event_log := [event_of 1 0 (individual 0 RECOVERED) INFECTED RECOVERED,
                     event_of 1 1 (individual 1 EXPOSED) SUSCEPTIBLE EXPOSED,
                     event_of 2 1 (individual 1 INFECTED) EXPOSED INFECTED]\<rparr>)"
proof -
  have days: "[1..2::int] = [1, 2]" by (simp add: upto_rec1)
  show ?thesis
    unfolding days
    by (simp add: simulate_day_def Let_def logging_ops_def infect_patient_zero_def Simulation_def
        two_people_def individual_def daily_totals_eq)
qed

lemma two_people_run:
  "history (left_in (run fl logging_ops clk (Simulation two_days defaults rid two_people)))
     = [[(''S'', 0), (''E'', 1), (''I'', 0), (''R'', 1)], [(''S'', 0), (''E'', 0), (''I'', 1), (''R'', 1)]] \<and>
   event_log (left_in (run fl logging_ops clk (Simulation two_days defaults rid two_people)))
     = [event_of 1 0 (individual 0 RECOVERED) INFECTED RECOVERED,
        event_of 1 1 (individual 1 EXPOSED) SUSCEPTIBLE EXPOSED,
        event_of 2 1 (individual 1 INFECTED) EXPOSED INFECTED] \<and>
   world (left_in (run fl logging_ops clk (Simulation two_days defaults rid two_people)))
     = \<lparr>population = [individual 0 RECOVERED, individual 1 INFECTED],
        hidden = [''vaccinate'', ''distance'', ''quarantine'', ''update'',
                  ''vaccinate'', ''distance'', ''quarantine'', ''update'']\<rparr>"
proof -
  let ?s = "Simulation two_days defaults rid two_people"
  have ne: "population (world ?s) \<noteq> []" by (simp add: Simulation_def two_people_def)
  have d: "duration ?s = 2" by (simp add: Simulation_def two_days_def cfg_get_def)
  show ?thesis
    using run_frame[OF ne, of fl logging_ops clk] two_people_loop[of rid]
    by (simp add: at_end_of_day_def d)
qed

section \<open>Conservation\<close>

text \<open>
  C2. In a run whose collaborators keep the size of the population, every record of the
  history has the four counts Susceptible, Exposed, Infected and Recovered, and they sum
  to the number of individuals the run started with; the population still has that size
  when the run ends. (That an individual is in exactly one of the four states is the type
  of \<open>state\<close>.)
\<close>

theorem conservation:
  assumes "keeps_size ops"
    and "c \<in> set (history (left_in (run fl ops clk (Simulation sc vc rid w))))"
  shows "(\<exists>a b e r. c = [(''S'', a), (''E'', b), (''I'', e), (''R'', r)] \<and>
            0 \<le> a \<and> 0 \<le> b \<and> 0 \<le> e \<and> 0 \<le> r \<and>
            a + b + e + r = int (length (population w))) \<and>
         length (population (world (left_in (run fl ops clk (Simulation sc vc rid w)))))
           = length (population w)"
proof (cases "population w = []")
  case True
  with assms(2) show ?thesis by (simp add: run_def Simulation_def)
next
  case False
  let ?s = "Simulation sc vc rid w"
  have w: "world ?s = w" and h: "history ?s = []" by (simp_all add: Simulation_def)
  from False w have ne: "population (world ?s) \<noteq> []" by simp
  from day_loop_sized[OF assms(1), of "[1..duration ?s]" "infect_patient_zero ?s"]
  obtain s' hs where
    loop: "day_loop ops [1..duration ?s] (infect_patient_zero ?s) = Inr s'" and
    size: "length (population (world s')) = length (population (world (infect_patient_zero ?s)))" and
    hist: "history s' = history (infect_patient_zero ?s) @ hs" and
    recs: "\<forall>c\<in>set hs. \<exists>ps. length ps = length (population (world (infect_patient_zero ?s))) \<and>
             c = daily_totals ps"
    by blast
  have fin: "history (left_in (run fl ops clk ?s)) = history s'" "world (left_in (run fl ops clk ?s)) = world s'"
    using run_frame[OF ne, of fl ops clk] loop by (simp_all add: at_end_of_day_def)
  have n: "length (population (world (infect_patient_zero ?s))) = length (population w)"
    by (simp add: seeded_population_size w)
  from assms(2) fin hist h have "c \<in> set hs" by (simp add: seeded_frame)
  with recs n obtain ps where ps: "length ps = length (population w)" "c = daily_totals ps"
    by auto
  have "\<exists>a b e r. c = [(''S'', a), (''E'', b), (''I'', e), (''R'', r)] \<and>
            0 \<le> a \<and> 0 \<le> b \<and> 0 \<le> e \<and> 0 \<le> r \<and> a + b + e + r = int (length ps)"
    using totals_sum[of ps] ps(2) by (simp add: daily_totals_eq)
  with ps(1) fin(2) size n show ?thesis by simp
qed

theorem conservation_witness:
  "keeps_size logging_ops \<and>
   [(''S'', 0), (''E'', 1), (''I'', 0), (''R'', 1)]
     \<in> set (history (left_in (run ideal logging_ops stopwatch (Simulation two_days defaults ''001'' two_people)))) \<and>
   (0::int) + 1 + 0 + 1 = int (length (population two_people)) \<and>
   length (population (world (left_in (run ideal logging_ops stopwatch (Simulation two_days defaults ''001'' two_people)))))
     = length (population two_people)"
proof -
  have k: "keeps_size logging_ops" by (rule keeps_size_logging_ops)
  have m: "[(''S'', 0), (''E'', 1), (''I'', 0), (''R'', 1)]
     \<in> set (history (left_in (run ideal logging_ops stopwatch (Simulation two_days defaults ''001'' two_people))))"
    by (simp add: two_people_run)
  from conservation[OF k m] k m show ?thesis by auto
qed


lemma run_returns:
  assumes "run fl ops clk s = Inr s'"
  shows "population (world s) \<noteq> [] \<and>
         (\<exists>s2. day_loop ops [1..duration s] (infect_patient_zero s) = Inr s2 \<and>
               history s' = history s2 \<and> event_log s' = event_log s2 \<and> world s' = world s2)"
proof -
  from assms have ne: "population (world s) \<noteq> []"
    by (auto simp: run_def split: if_splits)
  from assms ne obtain s2 where
    loop: "day_loop ops [1..duration s] (infect_patient_zero s) = Inr s2"
    by (auto simp: run_def split: sum.splits)
  from run_frame[OF ne, of fl ops clk] assms loop
  have "history s' = history s2 \<and> event_log s' = event_log s2 \<and> world s' = world s2"
    by (simp add: at_end_of_day_def)
  with ne loop show ?thesis by blast
qed

lemma day_record:
  assumes loop: "day_loop ops [1..n] s = Inr s2" and k: "0 \<le> d" "d < n"
  shows "\<exists>sa sb. day_loop ops [1..d] s = Inr sa \<and> day_loop ops [1..d + 1] s = Inr sb \<and>
           simulate_day ops (d + 1) sa = Inr sb \<and>
           history sb = history sa @ [daily_totals (population (world sb))] \<and>
           length (history sa) = length (history s) + nat d \<and>
           history s2 ! (length (history s) + nat d) = daily_totals (population (world sb))"
proof -
  from day_loop_prefix[OF loop, of "d + 1"] k obtain sb where
    sb: "day_loop ops [1..d + 1] s = Inr sb" "day_loop ops [d + 1 + 1..n] sb = Inr s2"
    by auto
  from day_loop_last_day[OF sb(1) k(1)] obtain sa where
    sa: "day_loop ops [1..d] s = Inr sa" "simulate_day ops (d + 1) sa = Inr sb"
    by blast
  have hb: "history sb = history sa @ [daily_totals (population (world sb))]"
    using simulate_day_frame[of ops "d + 1" sa] sa(2) by simp
  have la: "length (history sa) = length (history s) + nat d"
    using day_loop_returns_length[OF sa(1)] k(1) by simp
  from day_loop_history[of ops "[d + 1 + 1..n]" sb] sb(2) obtain hs where
    "history s2 = history sb @ hs" by auto
  with hb la have "history s2 ! (length (history s) + nat d) = daily_totals (population (world sb))"
    by (simp add: nth_append)
  with sa sb(1) hb la show ?thesis by blast
qed

lemma two_people_completes:
  "\<exists>s'. run fl logging_ops clk (Simulation two_days defaults rid two_people) = Inr s'"
proof -
  let ?s = "Simulation two_days defaults rid two_people"
  have d: "duration ?s = 2" by (simp add: Simulation_def two_days_def cfg_get_def)
  let ?s3 = "((Simulation two_days defaults rid two_people)
      \<lparr>world := \<lparr>population = [individual 0 RECOVERED, individual 1 INFECTED],
                 hidden = [''vaccinate'', ''distance'', ''quarantine'', ''update'',
                           ''vaccinate'', ''distance'', ''quarantine'', ''update'']\<rparr>,
       history := [[(''S'', 0), (''E'', 1), (''I'', 0), (''R'', 1)],
                   [(''S'', 0), (''E'', 0), (''I'', 1), (''R'', 1)]],
       event_log := [event_of 1 0 (individual 0 RECOVERED) INFECTED RECOVERED,
                     event_of 1 1 (individual 1 EXPOSED) SUSCEPTIBLE EXPOSED,
                     event_of 2 1 (individual 1 INFECTED) EXPOSED INFECTED]\<rparr>)
       \<lparr>runtime_ms := float_mul fl (float_sub fl (finished clk) (started clk)) 1000\<rparr>"
  have "\<exists>s4. export_run_data fl ?s3 = Inr (s4, base ?s3 @ ''_summary.json'', base ?s3 @ ''_config.json'')"
    by (rule export_returns)
       (simp_all add: well_formed_def Simulation_def two_days_def cfg_get_def individual_def)
  then obtain s4 where
    e: "export_run_data fl ?s3 = Inr (s4, base ?s3 @ ''_summary.json'', base ?s3 @ ''_config.json'')" ..
  show ?thesis
    using two_people_loop[of rid] e d
    by (simp add: run_def Simulation_def two_people_def)
qed

section \<open>The daily aggregate records\<close>

text \<open>
  C8. A run that completes, started on a fresh simulation object with a duration that is
  not negative, leaves exactly \<open>duration\<close> records in the history. The record at
  position \<open>k\<close> is the one of day \<open>k + 1\<close>: it lists the four keys S, E, I, R, each with
  the number of individuals in that state at the end of that day (zero when there is none),
  and it is the one record by which the history grew on that day.
\<close>

theorem one_record_per_day:
  assumes "run fl ops clk (Simulation sc vc rid w) = Inr s'"
    and "0 \<le> duration (Simulation sc vc rid w)"
  shows "length (history s') = nat (duration (Simulation sc vc rid w)) \<and>
         (\<forall>k<nat (duration (Simulation sc vc rid w)).
            history s' ! k =
              [(''S'', int (count_list (map state (population (world
                  (at_end_of_day ops (Simulation sc vc rid w) (int k + 1))))) SUSCEPTIBLE)),
               (''E'', int (count_list (map state (population (world
                  (at_end_of_day ops (Simulation sc vc rid w) (int k + 1))))) EXPOSED)),
               (''I'', int (count_list (map state (population (world
                  (at_end_of_day ops (Simulation sc vc rid w) (int k + 1))))) INFECTED)),
               (''R'', int (count_list (map state (population (world
                  (at_end_of_day ops (Simulation sc vc rid w) (int k + 1))))) RECOVERED))] \<and>
            history (at_end_of_day ops (Simulation sc vc rid w) (int k + 1)) =
              history (at_end_of_day ops (Simulation sc vc rid w) (int k)) @ [history s' ! k])"
proof -
  let ?s = "Simulation sc vc rid w"
  let ?z = "infect_patient_zero ?s"
  have h0: "history ?z = []" by (simp add: seeded_frame Simulation_def)
  from run_returns[OF assms(1)] obtain s2 where
    loop: "day_loop ops [1..duration ?s] ?z = Inr s2" and fin: "history s' = history s2"
    by blast
  have len: "length (history s') = nat (duration ?s)"
    using day_loop_returns_length[OF loop] h0 fin by simp
  have each: "history s' ! k = daily_totals (population (world (at_end_of_day ops ?s (int k + 1)))) \<and>
      history (at_end_of_day ops ?s (int k + 1)) =
        history (at_end_of_day ops ?s (int k)) @ [history s' ! k]"
    if "k < nat (duration ?s)" for k
  proof -
    from that have d: "0 \<le> int k" "int k < duration ?s" by simp_all
    from day_record[OF loop d] obtain sa sb where
      "day_loop ops [1..int k] ?z = Inr sa" "day_loop ops [1..int k + 1] ?z = Inr sb"
      "history sb = history sa @ [daily_totals (population (world sb))]"
      "history s2 ! (length (history ?z) + nat (int k)) = daily_totals (population (world sb))"
      by blast
    with h0 fin show ?thesis by (simp add: at_end_of_day_def)
  qed
  show ?thesis using len each by (simp add: daily_totals_eq)
qed

theorem one_record_per_day_witness:
  "(\<exists>s'. run ideal logging_ops stopwatch (Simulation two_days defaults ''001'' two_people) = Inr s' \<and>
         length (history s') = 2 \<and>
         history s' ! 0 = [(''S'', 0), (''E'', 1), (''I'', 0), (''R'', 1)] \<and>
         history s' ! 1 = [(''S'', 0), (''E'', 0), (''I'', 1), (''R'', 1)]) \<and>
   (0::int) \<le> duration (Simulation two_days defaults ''001'' two_people :: string list simulation)"
proof -
  let ?s = "Simulation two_days defaults ''001'' two_people"
  have d: "duration ?s = 2" by (simp add: Simulation_def two_days_def cfg_get_def)
  from two_people_completes[of ideal stopwatch "''001''"]
  obtain s' where s': "run ideal logging_ops stopwatch ?s = Inr s'" ..
  have h: "history s' = [[(''S'', 0), (''E'', 1), (''I'', 0), (''R'', 1)],
                         [(''S'', 0), (''E'', 0), (''I'', 1), (''R'', 1)]]"
    using two_people_run[of ideal stopwatch "''001''"] s' by simp
  from one_record_per_day[OF s'] d h s' show ?thesis by simp
qed

section \<open>The order of a simulated day\<close>






lemma two_people_after_day_1:
  "at_end_of_day logging_ops (Simulation two_days defaults rid two_people) 1
   = (infect_patient_zero (Simulation two_days defaults rid two_people))
      \<lparr>world := \<lparr>population = [individual 0 RECOVERED, individual 1 EXPOSED],
                 hidden = [''vaccinate'', ''distance'', ''quarantine'', ''update'']\<rparr>,
       history := [[(''S'', 0), (''E'', 1), (''I'', 0), (''R'', 1)]],
       event_log := [event_of 1 0 (individual 0 RECOVERED) INFECTED RECOVERED,
                     event_of 1 1 (individual 1 EXPOSED) SUSCEPTIBLE EXPOSED]\<rparr>"
proof -
  have days: "[1..1::int] = [1]" by (simp add: upto_rec1)
  show ?thesis
    unfolding at_end_of_day_def days
    by (simp add: simulate_day_def Let_def logging_ops_def infect_patient_zero_def Simulation_def
        two_people_def individual_def daily_totals_eq)
qed

section \<open>The event records of a day\<close>



section \<open>Running on an empty population\<close>

lemma run_error_kind:
  assumes "run fl ops clk s = Inl (e, s')" "population (world s) \<noteq> []"
  shows "kind e \<in> {''IndexError'', ''KeyError'', ''ZeroDivisionError'', ''AttributeError''}"
proof (cases "day_loop ops [1..duration s] (infect_patient_zero s)")
  case (Inl a)
  with assms have "a = (e, s')" by (simp add: run_def)
  with Inl have "e = IndexError" by (auto dest: day_loop_error)
  then show ?thesis by (simp add: IndexError_def)
next
  case (Inr s2)
  let ?s3 = "s2\<lparr>runtime_ms := float_mul fl (float_sub fl (finished clk) (started clk)) 1000\<rparr>"
  from assms Inr have "export_run_data fl ?s3 = Inl (e, s')"
    by (auto simp: run_def split: sum.splits)
  from export_error[OF this] show ?thesis by auto
qed

lemma run_files:
  assumes "files (left_in (run fl ops clk s)) \<noteq> files s"
  shows "\<exists>s2. day_loop ops [1..duration s] (infect_patient_zero s) = Inr s2 \<and>
              history (left_in (run fl ops clk s)) = history s2 \<and>
              length (history s2) = length (history s) + nat (duration s)"
proof -
  from assms have ne: "population (world s) \<noteq> []"
    by (auto simp: run_def split: if_splits)
  show ?thesis
  proof (cases "day_loop ops [1..duration s] (infect_patient_zero s)")
    case (Inl a)
    obtain e s' where a: "a = (e, s')" by (cases a)
    from day_loop_frame[of ops "[1..duration s]" "infect_patient_zero s"] Inl a
    have "files s' = files s" by (simp add: infect_patient_zero_def)
    with ne Inl a assms show ?thesis by (simp add: run_def)
  next
    case (Inr s2)
    have "history (left_in (run fl ops clk s)) = history s2"
      using run_frame[OF ne, of fl ops clk] Inr by (simp add: at_end_of_day_def)
    moreover have "length (history s2) = length (history s) + nat (duration s)"
      using day_loop_returns_length[OF Inr] by (simp add: seeded_frame)
    ultimately show ?thesis using Inr by simp
  qed
qed

text \<open>
  C3, as the code has it. \<^verbatim>\<open>run\<close> raises \<^verbatim>\<open>RuntimeError\<close> with the message
  \<^verbatim>\<open>Population is empty\<close>, a dash, \<^verbatim>\<open>cannot start simulation.\<close> if and only if the
  population is empty when the run starts. It does so before patient zero is infected and
  before the day loop: the simulation object is left as it was, so no record is added to
  the history or to the event log and no file is written. Whenever a run has written a
  file, its day loop had returned after all \<open>duration\<close> days, with one record for each.
\<close>

theorem run_empty_population:
  "((\<exists>s'. run fl ops clk s = Inl (RuntimeError empty_message, s')) \<longleftrightarrow> population (world s) = []) \<and>
   (population (world s) = [] \<longrightarrow> run fl ops clk s = Inl (RuntimeError empty_message, s)) \<and>
   (files (left_in (run fl ops clk s)) \<noteq> files s \<longrightarrow>
      (\<exists>s2. day_loop ops [1..duration s] (infect_patient_zero s) = Inr s2 \<and>
            history (left_in (run fl ops clk s)) = history s2 \<and>
            length (history s2) = length (history s) + nat (duration s)))"
proof -
  have a: "run fl ops clk s = Inl (RuntimeError empty_message, s)" if "population (world s) = []"
    using that by (simp add: run_def)
  have b: "population (world s) = []" if "run fl ops clk s = Inl (RuntimeError empty_message, s')" for s'
  proof (rule ccontr)
    assume "population (world s) \<noteq> []"
    from run_error_kind[OF that this] show False by (simp add: RuntimeError_def)
  qed
  from a b run_files[of fl ops clk s] show ?thesis by blast
qed

theorem run_empty_population_witness:
  "population (world (Simulation two_days defaults ''001'' nobody)) = [] \<and>
   run ideal logging_ops stopwatch (Simulation two_days defaults ''001'' nobody)
     = Inl (Error ''RuntimeError'' (''Population is empty '' @ em_dash @ '' cannot start simulation.''),
            Simulation two_days defaults ''001'' nobody) \<and>
   history (left_in (run ideal logging_ops stopwatch (Simulation two_days defaults ''001'' nobody))) = [] \<and>
   event_log (left_in (run ideal logging_ops stopwatch (Simulation two_days defaults ''001'' nobody))) = [] \<and>
   files (left_in (run ideal logging_ops stopwatch (Simulation two_days defaults ''001'' nobody))) = []"
proof -
  have e: "population (world (Simulation two_days defaults ''001'' nobody)) = []"
    by (simp add: Simulation_def nobody_def)
  from run_empty_population[of ideal logging_ops stopwatch "Simulation two_days defaults ''001'' nobody"] e
  have "run ideal logging_ops stopwatch (Simulation two_days defaults ''001'' nobody)
     = Inl (RuntimeError empty_message, Simulation two_days defaults ''001'' nobody)"
    by blast
  with e show ?thesis
    by (simp add: RuntimeError_def empty_message_def) (simp add: Simulation_def)
qed

theorem run_empty_population_counterexample:
  "run ideal logging_ops stopwatch (Simulation two_days defaults ''001'' nobody)
     = Inl (Error ''RuntimeError'' (''Population is empty '' @ em_dash @ '' cannot start simulation.''),
            Simulation two_days defaults ''001'' nobody) \<and>
   run ideal logging_ops stopwatch (Simulation two_days defaults ''001'' nobody)
     \<noteq> Inl (Error ''StateError'' ''population is empty'',
            Simulation two_days defaults ''001'' nobody)"
  by (simp add: run_def Simulation_def nobody_def RuntimeError_def empty_message_def)

section \<open>Exporting after zero days\<close>




section \<open>The throughput figure\<close>

lemma export_summary:
  assumes "export_run_data fl s = Inr (s', a, b)"
  shows "\<exists>m. summarise fl s = Inr m \<and> summaries_written s' = summaries_written s @ [m]"
proof -
  obtain rows err where r: "timeseries_rows 1 (history s) = (rows, err)"
    by (cases "timeseries_rows 1 (history s)")
  from assms r have e: "err = None"
    by (cases err) (simp_all add: export_run_data_def Let_def)
  from assms r e obtain m where m: "summarise fl s = Inr m"
    by (cases "summarise fl s") (simp_all add: export_run_data_def Let_def)
  from assms r e m have "summaries_written s' = summaries_written s @ [m]"
    by (auto simp: export_run_data_def Let_def summaries_written_def)
  with m show ?thesis by blast
qed

lemma run_summary:
  assumes "run fl ops clk s = Inr s'"
  shows "\<exists>s2 m. day_loop ops [1..duration s] (infect_patient_zero s) = Inr s2 \<and>
           history s' = history s2 \<and>
           runtime_ms s' = float_mul fl (float_sub fl (finished clk) (started clk)) 1000 \<and>
           summarise fl (s2\<lparr>runtime_ms := float_mul fl (float_sub fl (finished clk) (started clk)) 1000\<rparr>) = Inr m \<and>
           summaries_written s' = summaries_written s @ [m]"
proof -
  from run_returns[OF assms] obtain s2 where
    ne: "population (world s) \<noteq> []" and
    loop: "day_loop ops [1..duration s] (infect_patient_zero s) = Inr s2" and
    h: "history s' = history s2"
    by blast
  let ?s3 = "s2\<lparr>runtime_ms := float_mul fl (float_sub fl (finished clk) (started clk)) 1000\<rparr>"
  from assms ne loop obtain s4 a b where
    e: "export_run_data fl ?s3 = Inr (s4, a, b)" and
    s': "s' = plot_curve (RESULTS_DIR @ ''run_'' @ run_id s4 @ ''_curve.png'') (log_run fl a s4)"
    by (auto simp: run_def split: sum.splits)
  from export_summary[OF e] obtain m where
    m: "summarise fl ?s3 = Inr m" "summaries_written s4 = summaries_written ?s3 @ [m]"
    by blast
  have f2: "files s2 = files s"
    using day_loop_frame[of ops "[1..duration s]" "infect_patient_zero s"] loop
    by (simp add: infect_patient_zero_def)
  have w: "summaries_written s' = summaries_written s @ [m]"
    using m(2) f2 unfolding s' by (simp add: summaries_written_def plot_curve_def log_run_def)
  have "runtime_ms s4 = runtime_ms ?s3"
    using export_frame[of fl ?s3 _ s4 a b] e by simp
  then have rt: "runtime_ms s' = float_mul fl (float_sub fl (finished clk) (started clk)) 1000"
    unfolding s' by (simp add: plot_curve_def log_run_def)
  from loop h rt m(1) w show ?thesis by blast
qed

lemma ideal_throughput_1:
  "float_mul ideal (float_sub ideal (finished stopwatch) (started stopwatch)) 1000 = 1"
  "float_round ideal (int_div_float ideal 1 1) 4 = 1"
  by (simp_all add: ideal_def stopwatch_def round_half_even_def Let_def)

lemma two_people_populations:
  "populations_of_run logging_ops (Simulation two_days defaults rid two_people) =
     [[individual 0 INFECTED, individual 1 SUSCEPTIBLE],
      [individual 0 RECOVERED, individual 1 EXPOSED],
      [individual 0 RECOVERED, individual 1 INFECTED]]"
proof -
  let ?s = "Simulation two_days defaults rid two_people"
  have d: "duration ?s = 2" by (simp add: Simulation_def two_days_def cfg_get_def)
  have days: "[0..2::int] = [0, 1, 2]" by (simp add: upto_rec1)
  have p0: "population (world (at_end_of_day logging_ops ?s 0))
      = [individual 0 INFECTED, individual 1 SUSCEPTIBLE]"
    by (simp add: at_end_of_day_def infect_patient_zero_def Simulation_def two_people_def individual_def)
  have p1: "population (world (at_end_of_day logging_ops ?s 1))
      = [individual 0 RECOVERED, individual 1 EXPOSED]"
    by (simp add: two_people_after_day_1)
  have p2: "population (world (at_end_of_day logging_ops ?s 2))
      = [individual 0 RECOVERED, individual 1 INFECTED]"
    unfolding at_end_of_day_def two_people_loop by simp
  show ?thesis
    unfolding populations_of_run_def d days by (simp add: p0 p1 p2)
qed

lemma two_people_summaries:
  "run ideal logging_ops stopwatch (Simulation two_days defaults rid two_people) = Inr s' \<Longrightarrow>
   map Throughput (summaries_written s') = [1]"
proof -
  assume r: "run ideal logging_ops stopwatch (Simulation two_days defaults rid two_people) = Inr s'"
  have h: "history s' = [[(''S'', 0), (''E'', 1), (''I'', 0), (''R'', 1)],
                         [(''S'', 0), (''E'', 0), (''I'', 1), (''R'', 1)]]"
    using two_people_run[of ideal stopwatch rid] r by simp
  have k: "key_total ''I'' (history s') = 1"
    by (simp add: h key_total_def dict_get_def)
  from run_summary[OF r] obtain s2 m where
    "day_loop logging_ops [1..duration (Simulation two_days defaults rid two_people)]
       (infect_patient_zero (Simulation two_days defaults rid two_people)) = Inr s2" and
    h2: "history s' = history s2" and
    m: "summarise ideal (s2\<lparr>runtime_ms :=
          float_mul ideal (float_sub ideal (finished stopwatch) (started stopwatch)) 1000\<rparr>) = Inr m" and
    w: "summaries_written s' = summaries_written (Simulation two_days defaults rid two_people) @ [m]"
    by blast
  have k2: "key_total ''I'' (history s2) = 1" using k h2 by simp
  from summarise_throughput[OF m] have "Throughput m = 1"
    by (simp add: k2 ideal_throughput_1)
  with w show ?thesis
    by (simp add: summaries_written_def Simulation_def)
qed

text \<open>
  C9, as the code has it. A run that returns writes one summary. Its running time is the
  float product by 1000 of the float difference of the two readings of the clock
  (milliseconds). Its throughput figure is, when the running time is positive, the float
  quotient of the sum over the simulated days of the number of individuals counted as
  Infected at the end of the day (the entry \<^verbatim>\<open>"I"\<close> of \<^verbatim>\<open>TotalCounts\<close>: infected
  person-days) by the running time, rounded by \<^verbatim>\<open>round\<close> to four decimals; and 0
  otherwise. The quotient and the rounding are those of the interpreter on floats,
  whatever they are: the statement holds for every arithmetic. It is not the number of
  individuals ever infected: in the run of the counterexample, which takes one
  millisecond, two individuals are infected in turn, patient zero before day 1 and the
  other on day 2; the sum of the daily counts of Infected is 1 and the figure is 1 per
  millisecond, where the number of individuals ever infected, 2, would give 2.
\<close>

theorem throughput_figure:
  assumes "run fl ops clk s = Inr s'"
  shows "\<exists>m. summaries_written s' = summaries_written s @ [m] \<and>
          runtime_ms s' = float_mul fl (float_sub fl (finished clk) (started clk)) 1000 \<and>
          Throughput m =
            (if 0 < runtime_ms s'
             then float_round fl (int_div_float fl (key_total ''I'' (history s')) (runtime_ms s')) 4
             else 0)"
proof -
  from run_summary[OF assms] obtain s2 m where
    "day_loop ops [1..duration s] (infect_patient_zero s) = Inr s2" and
    h: "history s' = history s2" and
    rt: "runtime_ms s' = float_mul fl (float_sub fl (finished clk) (started clk)) 1000" and
    m: "summarise fl (s2\<lparr>runtime_ms := float_mul fl (float_sub fl (finished clk) (started clk)) 1000\<rparr>) = Inr m" and
    w: "summaries_written s' = summaries_written s @ [m]"
    by blast
  from summarise_throughput[OF m] h rt
  have "Throughput m =
          (if 0 < runtime_ms s'
           then float_round fl (int_div_float fl (key_total ''I'' (history s')) (runtime_ms s')) 4
           else 0)"
    by simp
  with w rt show ?thesis by (intro exI[of _ m] conjI)
qed

theorem throughput_figure_witness:
  "\<exists>s'. run ideal logging_ops stopwatch (Simulation two_days defaults ''001'' two_people) = Inr s' \<and>
        key_total ''I'' (history s') = 1 \<and>
        runtime_ms s' = 1 \<and>
        map Throughput (summaries_written s') = [1]"
proof -
  from two_people_completes[of ideal stopwatch "''001''"] obtain s' where
    r: "run ideal logging_ops stopwatch (Simulation two_days defaults ''001'' two_people) = Inr s'" ..
  have h: "history s' = [[(''S'', 0), (''E'', 1), (''I'', 0), (''R'', 1)],
                         [(''S'', 0), (''E'', 0), (''I'', 1), (''R'', 1)]]"
    using two_people_run[of ideal stopwatch "''001''"] r by simp
  have k: "key_total ''I'' (history s') = 1"
    by (simp add: h key_total_def dict_get_def)
  from throughput_figure[OF r] obtain m where
    w: "summaries_written s' = summaries_written (Simulation two_days defaults ''001'' two_people) @ [m]" and
    rt: "runtime_ms s' = float_mul ideal (float_sub ideal (finished stopwatch) (started stopwatch)) 1000" and
    th: "Throughput m =
          (if 0 < runtime_ms s'
           then float_round ideal (int_div_float ideal (key_total ''I'' (history s')) (runtime_ms s')) 4
           else 0)"
    by blast
  have c: "runtime_ms s' = 1" using rt by (simp add: ideal_throughput_1)
  have "Throughput m = 1" using th by (simp add: c k ideal_throughput_1)
  with w have t: "map Throughput (summaries_written s') = [1]"
    by (simp add: summaries_written_def Simulation_def)
  show ?thesis by (rule exI[of _ s']) (intro conjI r k c t)
qed

theorem throughput_figure_counterexample:
  "map Throughput
     (summaries_written (left_in (run ideal logging_ops stopwatch (Simulation two_days defaults ''001'' two_people))))
     = [1] \<and>
   key_total ''I''
     (history (left_in (run ideal logging_ops stopwatch (Simulation two_days defaults ''001'' two_people))))
     = 1 \<and>
   ever_infected (populations_of_run logging_ops (Simulation two_days defaults ''001'' two_people)) = 2 \<and>
   float_round ideal
     (int_div_float ideal
        (int (ever_infected (populations_of_run logging_ops (Simulation two_days defaults ''001'' two_people))))
        (float_mul ideal (float_sub ideal (finished stopwatch) (started stopwatch)) 1000)) 4
     = 2"
proof -
  from two_people_completes[of ideal stopwatch "''001''"] obtain s' where
    r: "run ideal logging_ops stopwatch (Simulation two_days defaults ''001'' two_people) = Inr s'" ..
  have a: "map Throughput (summaries_written (left_in (run ideal logging_ops stopwatch
             (Simulation two_days defaults ''001'' two_people)))) = [1]"
    using two_people_summaries[OF r] r by simp
  have b: "ever_infected (populations_of_run logging_ops (Simulation two_days defaults ''001'' two_people)) = 2"
    unfolding two_people_populations
    by (simp add: ever_infected_def individual_def upt_conv_Cons)
  have c: "float_round ideal (int_div_float ideal 2 1) 4 = 2"
    by (simp add: ideal_def round_half_even_def Let_def)
  have h: "history s' = [[(''S'', 0), (''E'', 1), (''I'', 0), (''R'', 1)],
                         [(''S'', 0), (''E'', 0), (''I'', 1), (''R'', 1)]]"
    using two_people_run[of ideal stopwatch "''001''"] r by simp
  have k: "key_total ''I'' (history (left_in (run ideal logging_ops stopwatch
             (Simulation two_days defaults ''001'' two_people)))) = 1"
    unfolding r by (simp add: h key_total_def dict_get_def)
  show ?thesis using a k by (simp add: b c ideal_throughput_1)
qed

section \<open>Determinism\<close>

lemma track_changes_agree:
  "same_inputs s t \<Longrightarrow> agree (track_changes d prev i ps s) (track_changes d prev i ps t)"
proof (induction ps arbitrary: i s t)
  case Nil
  then show ?case by (simp add: agree_def returns_def)
next
  case (Cons p ps)
  show ?case
  proof (cases "length prev \<le> i")
    case True
    with Cons.prems show ?thesis by (simp add: agree_def returns_def)
  next
    case False
    let ?up = "\<lambda>u. if prev ! i \<noteq> state p
       then u\<lparr>event_log := event_log u @ [event_of d i p (prev ! i) (state p)]\<rparr> else u"
    have "same_inputs (?up s) (?up t)"
      using Cons.prems by (simp add: same_inputs_def)
    from Cons.IH[OF this, of "Suc i"] False show ?thesis by (simp add: Let_def)
  qed
qed

lemma simulate_day_agree:
  "same_inputs s t \<Longrightarrow> agree (simulate_day ops d s) (simulate_day ops d t)"
proof -
  assume st: "same_inputs s t"
  then have w: "world s = world t" "virus s = virus t" by (simp_all add: same_inputs_def)
  let ?w4 = "day_world ops d s"
  have "same_inputs (s\<lparr>world := ?w4, history := history s @ [daily_totals (population ?w4)]\<rparr>)
                    (t\<lparr>world := ?w4, history := history t @ [daily_totals (population ?w4)]\<rparr>)"
    using st by (simp add: same_inputs_def)
  from track_changes_agree[OF this] show ?thesis
    by (simp add: simulate_day_def Let_def day_world_def w)
qed

lemma day_loop_agree:
  "same_inputs s t \<Longrightarrow> agree (day_loop ops ds s) (day_loop ops ds t)"
proof (induction ds arbitrary: s t)
  case Nil
  then show ?case by (simp add: agree_def returns_def)
next
  case (Cons d ds)
  from simulate_day_agree[OF Cons.prems, of ops d]
  have a: "agree (simulate_day ops d s) (simulate_day ops d t)" .
  show ?case
  proof (cases "simulate_day ops d s")
    case (Inl x)
    with a obtain y where "simulate_day ops d t = Inl y"
      by (cases "simulate_day ops d t") (simp_all add: agree_def returns_def)
    with Inl a show ?thesis by (simp add: agree_def returns_def)
  next
    case (Inr s1)
    with a obtain t1 where t1: "simulate_day ops d t = Inr t1"
      by (cases "simulate_day ops d t") (simp_all add: agree_def returns_def)
    with Inr a have "same_inputs s1 t1" by (simp add: agree_def)
    from Cons.IH[OF this] Inr t1 show ?thesis by simp
  qed
qed

text \<open>
  C4. Two runs with the same configuration, the same collaborators and the same initial
  world, which holds the state of the random number generator, leave the same history and
  the same event log (and the same population), whatever the clock shows during each run
  and whatever run identifier each was given.
\<close>

theorem run_deterministic:
  "history (left_in (run fl ops clk1 (Simulation sc vc rid1 w)))
     = history (left_in (run fl ops clk2 (Simulation sc vc rid2 w))) \<and>
   event_log (left_in (run fl ops clk1 (Simulation sc vc rid1 w)))
     = event_log (left_in (run fl ops clk2 (Simulation sc vc rid2 w))) \<and>
   population (world (left_in (run fl ops clk1 (Simulation sc vc rid1 w))))
     = population (world (left_in (run fl ops clk2 (Simulation sc vc rid2 w))))"
proof (cases "population w = []")
  case True
  then show ?thesis by (simp add: run_def Simulation_def)
next
  case False
  let ?s = "Simulation sc vc rid1 w" and ?t = "Simulation sc vc rid2 w"
  have ne: "population (world ?s) \<noteq> []" "population (world ?t) \<noteq> []"
    using False by (simp_all add: Simulation_def)
  have d: "duration ?t = duration ?s" by (simp add: Simulation_def)
  have "same_inputs (infect_patient_zero ?s) (infect_patient_zero ?t)"
    by (simp add: same_inputs_def infect_patient_zero_def Simulation_def)
  from day_loop_agree[OF this, of ops "[1..duration ?s]"]
  have "same_inputs (at_end_of_day ops ?s (duration ?s)) (at_end_of_day ops ?t (duration ?t))"
    by (simp add: agree_def at_end_of_day_def d)
  with run_frame[OF ne(1), of fl ops clk1] run_frame[OF ne(2), of fl ops clk2]
  show ?thesis by (simp add: same_inputs_def)
qed

theorem run_deterministic_witness:
  "history (left_in (run ideal logging_ops stopwatch (Simulation two_days defaults ''001'' two_people)))
     = history (left_in (run ideal logging_ops \<lparr>started = 5, finished = 9\<rparr>
                          (Simulation two_days defaults ''002'' two_people))) \<and>
   event_log (left_in (run ideal logging_ops stopwatch (Simulation two_days defaults ''001'' two_people)))
     = event_log (left_in (run ideal logging_ops \<lparr>started = 5, finished = 9\<rparr>
                          (Simulation two_days defaults ''002'' two_people))) \<and>
   history (left_in (run ideal logging_ops stopwatch (Simulation two_days defaults ''001'' two_people)))
     = [[(''S'', 0), (''E'', 1), (''I'', 0), (''R'', 1)], [(''S'', 0), (''E'', 0), (''I'', 1), (''R'', 1)]] \<and>
   run_id (Simulation two_days defaults ''001'' two_people :: string list simulation)
     \<noteq> run_id (Simulation two_days defaults ''002'' two_people :: string list simulation)"
  using run_deterministic[of ideal logging_ops stopwatch two_days defaults "''001''" two_people
          "\<lparr>started = 5, finished = 9\<rparr>" "''002''"]
        two_people_run[of ideal stopwatch "''001''"]
  by (simp add: Simulation_def)

section \<open>Order independence of the disease step\<close>

lemma commit_length: "length (commit ds pop) = length pop"
  by (induction ds pop rule: commit.induct) simp_all

lemma commit_map:
  "set order \<subseteq> {..<length acc} \<Longrightarrow>
   commit (map (\<lambda>u. (u, f u)) order) acc =
     map (\<lambda>i. if i \<in> set order then f i else acc ! i) [0..<length acc]"
proof (induction order arbitrary: acc)
  case Nil
  show ?case by (simp add: map_nth)
next
  case (Cons u us)
  then have u: "u < length acc" and us: "set us \<subseteq> {..<length (acc[u := f u])}" by simp_all
  from Cons.IH[OF us] have
    "commit (map (\<lambda>u. (u, f u)) (u # us)) acc =
       map (\<lambda>i. if i \<in> set us then f i else acc[u := f u] ! i) [0..<length acc]"
    by simp
  also have "\<dots> = map (\<lambda>i. if i \<in> set (u # us) then f i else acc ! i) [0..<length acc]"
    using u by (auto simp: nth_list_update)
  finally show ?case .
qed

lemma disease_step_eq:
  assumes "set order = {..<length pop}"
  shows "disease_step vir nbrs ch order pop = map (decide vir nbrs ch pop) [0..<length pop]"
proof -
  from assms have "set order \<subseteq> {..<length pop}" by simp
  from commit_map[OF this, of "decide vir nbrs ch pop"] assms show ?thesis
    by (simp add: disease_step_def decisions_def)
qed

text \<open>
  C1. The disease step computes the decision of every individual from the snapshot it is
  given, which in \<^verbatim>\<open>simulate_day\<close> is the population after the three interventions of
  the day, and commits the decisions afterwards. So for any two iteration orders that
  enumerate the population, the committed population is the same, every individual ends in
  the state decided for it against the snapshot, and the simulated day leaves the same
  simulation object.
\<close>

theorem order_independence:
  assumes "\<forall>d w. set (order1 d w) = {..<length (population w)}"
    and "\<forall>d w. set (order2 d w) = {..<length (population w)}"
  shows "disease_step vir nbrs ch (order1 d w) (population w)
           = disease_step vir nbrs ch (order2 d w) (population w) \<and>
         (\<forall>u<length (population w).
            disease_step vir nbrs ch (order1 d w) (population w) ! u
              = decide vir nbrs ch (population w) u) \<and>
         simulate_day (ops\<lparr>Population_update := synchronous_update nb trials order1\<rparr>) d s
           = simulate_day (ops\<lparr>Population_update := synchronous_update nb trials order2\<rparr>) d s"
proof -
  have o1: "set (order1 d w) = {..<length (population w)}" for d w using assms(1) by simp
  have o2: "set (order2 d w) = {..<length (population w)}" for d w using assms(2) by simp
  have step: "disease_step v n c (order1 d w) (population w)
      = disease_step v n c (order2 d w) (population w)" for v n c d w
    by (simp add: disease_step_eq[OF o1] disease_step_eq[OF o2])
  have "synchronous_update nb trials order1 = synchronous_update nb trials order2"
    by (intro ext) (simp add: synchronous_update_def step)
  then show ?thesis
    using step by (simp add: disease_step_eq[OF o1])
qed

theorem order_independence_witness:
  "(\<forall>d (w :: string list world). set [0..<length (population w)] = {..<length (population w)}) \<and>
   (\<forall>d (w :: string list world). set (rev [0..<length (population w)]) = {..<length (population w)}) \<and>
   disease_step (virus (Simulation two_days defaults ''001'' seeded_pair)) pair_contacts certain
       [0, 1] (population seeded_pair)
     = [individual 0 RECOVERED, individual 1 EXPOSED] \<and>
   disease_step (virus (Simulation two_days defaults ''001'' seeded_pair)) pair_contacts certain
       [1, 0] (population seeded_pair)
     = [individual 0 RECOVERED, individual 1 EXPOSED]"
proof -
  let ?o1 = "\<lambda>(d::int) (w :: string list world). [0..<length (population w)]"
  let ?o2 = "\<lambda>(d::int) (w :: string list world). rev [0..<length (population w)]"
  let ?v = "virus (Simulation two_days defaults ''001'' seeded_pair)"
  have a: "\<forall>d w. set (?o1 d w) = {..<length (population w)}" by auto
  have b: "\<forall>d w. set (?o2 d w) = {..<length (population w)}" by auto
  have l: "length (population seeded_pair) = 2" by (simp add: seeded_pair_def)
  have u: "[0..<2] = [0, 1]" by (simp add: upt_conv_Cons)
  have c: "disease_step ?v pair_contacts certain [0, 1] (population seeded_pair)
      = [individual 0 RECOVERED, individual 1 EXPOSED]"
    by (simp add: disease_step_def decisions_def decide_def exposed_today_def certain_def
        pair_contacts_def seeded_pair_def individual_def Let_def)
  from order_independence[OF a b, where vir = ?v and nbrs = pair_contacts and ch = certain
      and d = 0 and w = seeded_pair]
  have "disease_step ?v pair_contacts certain [0, 1] (population seeded_pair)
      = disease_step ?v pair_contacts certain [1, 0] (population seeded_pair)"
    by (simp add: l u)
  with a b c show ?thesis by simp
qed

end
